theory Spec2Isabelle
  imports Main "HOL-Library.AList"
begin

section \<open>Data model\<close>

text \<open>
  A shallow embedding of \<^verbatim>\<open>HyperlaneDeployer\<close> (sdk/src/deploy/HyperlaneDeployer.ts) and
  \<^verbatim>\<open>HyperlaneCoreDeployer\<close> (sdk/src/core/HyperlaneCoreDeployer.ts).

  Chain names and addresses are strings, as in the source. A contract handle is
  represented by its address. A map of named contracts is an association list, whose order
  is the insertion order of the JavaScript object.
\<close>

type_synonym chain = string
type_synonym address = string
type_synonym contracts = "(string \<times> address) list"
type_synonym receipt = string

text \<open>A JavaScript \<^verbatim>\<open>Error\<close>: its \<^verbatim>\<open>message\<close> and the optional \<^verbatim>\<open>error.reason\<close>.\<close>

datatype error = Error (message: string) (reason: "string option")

datatype ProtocolType = Ethereum | Sealevel | Fuel | Cosmos

text \<open>Arguments of constructors and contract calls.\<close>

datatype arg =
    ArgAddress address
  | ArgNumber nat
  | ArgBytes string
  | ArgCall string "arg list"
  | ArgList "arg list"

text \<open>A populated transaction: the contract called, the function and its arguments.\<close>

datatype tx = Tx (to: address) (func: string) (args: "arg list")

text \<open>
  Modelled from the spec: the type \<^verbatim>\<open>IsmConfig\<close> of sdk/src/ism/types is not among the
  sources. A desired authorization module is either a literal address or a structural
  specification (multisig with validators and threshold, aggregation, routing).
\<close>

datatype IsmConfig =
    IsmAddress address
  | MultisigIsm "address list" nat
  | AggregationIsm "IsmConfig list" nat
  | RoutingIsm address "(chain \<times> IsmConfig) list"

text \<open>
  Modelled from the spec: \<^verbatim>\<open>HookConfig\<close> of sdk/src/hook/types is not among the sources.
  The engine only reads its \<^verbatim>\<open>type\<close> field.
\<close>

record HookConfig =
  hookType :: string
  hookParams :: "arg list"

record TimelockRoles =
  proposer :: address
  executor :: address

record TimelockConfig =
  delay :: nat
  roles :: TimelockRoles

record OwnableConfig =
  owner :: address
  ownerOverrides :: "(string \<times> address) list option"

record CoreConfig = OwnableConfig +
  defaultIsm :: IsmConfig
  defaultHook :: HookConfig
  requiredHook :: HookConfig
  remove :: bool
  upgrade :: "TimelockConfig option"

record MailboxClientConfig =
  hook :: "address option"
  interchainSecurityModule :: "IsmConfig option"

text \<open>A verification artifact: contract name, address and constructor arguments.\<close>

record ContractVerificationInput =
  name :: string
  address :: address
  constructorArguments :: "arg list"

text \<open>
  Every call that leaves the engine towards the chain client or a deployment collaborator
  is recorded, in order, in a trace.
\<close>

datatype event =
    SendTransaction chain tx
  | HandleTx chain tx
  | HandleDeploy chain string "arg list"
  | IsmFactoryDeploy chain IsmConfig
  | HookDeploy chain HookConfig
  | TestRecipientDeploy chain
  | VerifyContract chain string

text \<open>
  The collaborators of the engine (\<^verbatim>\<open>MultiProvider\<close>, the proxy helpers, the ISM factory,
  the hook and test-recipient deployers, the contract verifier) are not among the sources.
  They are parameters of the model: read-only calls are functions of the state of the
  outside world \<open>'w\<close> that may fail, mutating calls also return the new world.
\<close>

record 'w env =
  chainTimeoutMs :: nat
  recoverVerificationInputs :: bool
  duration :: "chain \<Rightarrow> nat"
  getChainMetadata :: "chain \<Rightarrow> error + ProtocolType"
  intersect :: "chain list \<Rightarrow> bool \<Rightarrow> error + chain list"
  tryGetExplorerAddressUrl :: "chain \<Rightarrow> 'w \<Rightarrow> error + string option"
  getSignerAddress :: "chain \<Rightarrow> 'w \<Rightarrow> error + address"
  getBlockNumber :: "chain \<Rightarrow> 'w \<Rightarrow> error + nat"
  getCode :: "chain \<Rightarrow> address \<Rightarrow> 'w \<Rightarrow> error + string"
  getDomainId :: "chain \<Rightarrow> nat"
  callStatic :: "chain \<Rightarrow> address \<Rightarrow> string \<Rightarrow> 'w \<Rightarrow> error + address"
  sendTransaction :: "chain \<Rightarrow> tx \<Rightarrow> 'w \<Rightarrow> (error + receipt) \<times> 'w"
  handleTx :: "chain \<Rightarrow> tx \<Rightarrow> 'w \<Rightarrow> (error + receipt) \<times> 'w"
  handleDeploy :: "chain \<Rightarrow> string \<Rightarrow> arg list \<Rightarrow> 'w \<Rightarrow> (error + address) \<times> 'w"
  isProxyAt :: "chain \<Rightarrow> address \<Rightarrow> 'w \<Rightarrow> error + bool"
  proxyAdmin :: "chain \<Rightarrow> address \<Rightarrow> 'w \<Rightarrow> error + address"
  proxyImplementation :: "chain \<Rightarrow> address \<Rightarrow> 'w \<Rightarrow> error + address"
  moduleMatchesConfig :: "chain \<Rightarrow> address \<Rightarrow> IsmConfig \<Rightarrow> 'w \<Rightarrow> error + bool"
  ismFactory ::
    "(chain \<Rightarrow> IsmConfig \<Rightarrow> address option \<Rightarrow> 'w \<Rightarrow> (error + address) \<times> 'w) option"
  deployedIsms :: "chain \<Rightarrow> 'w \<Rightarrow> contracts option"
  verifyContract :: "chain \<Rightarrow> ContractVerificationInput \<Rightarrow> 'w \<Rightarrow> (error + unit) \<times> 'w"
  hookDeployContracts ::
    "chain \<Rightarrow> HookConfig \<Rightarrow> contracts \<Rightarrow> 'w \<Rightarrow> (error + contracts) \<times> 'w"
  hookDeployedContracts :: "chain \<Rightarrow> 'w \<Rightarrow> contracts option"
  hookVerificationInputs :: "chain \<Rightarrow> 'w \<Rightarrow> ContractVerificationInput list option"
  testRecipientDeployContracts ::
    "chain \<Rightarrow> IsmConfig option \<Rightarrow> 'w \<Rightarrow> (error + contracts) \<times> 'w"

text \<open>The mutable fields of the deployer object, the outside world and the trace.\<close>

record 'w dstate =
  world :: 'w
  trace :: "event list"
  cachedAddresses :: "chain \<rightharpoonup> (string \<rightharpoonup> address)"
  deployedContracts :: "chain \<rightharpoonup> contracts"
  verificationInputs :: "chain \<rightharpoonup> ContractVerificationInput list"
  startingBlockNumbers :: "chain \<rightharpoonup> nat"

section \<open>Exceptions and state\<close>

text \<open>
  An asynchronous function of the source is a function from the state to an outcome (\<open>Inl\<close> the
  exception thrown, \<open>Inr\<close> the value returned) and the state it leaves behind: what was
  written before a throw stays written.
\<close>

type_synonym ('w, 'a) M = "'w dstate \<Rightarrow> (error + 'a) \<times> 'w dstate"

definition returnM :: "'a \<Rightarrow> ('w, 'a) M" where
  "returnM x s = (Inr x, s)"

definition throwM :: "error \<Rightarrow> ('w, 'a) M" where
  "throwM e s = (Inl e, s)"

definition bindM :: "('w, 'a) M \<Rightarrow> ('a \<Rightarrow> ('w, 'b) M) \<Rightarrow> ('w, 'b) M" where
  "bindM m f s = (case m s of (Inl e, s') \<Rightarrow> (Inl e, s') | (Inr x, s') \<Rightarrow> f x s')"

definition catchM :: "('w, 'a) M \<Rightarrow> (error \<Rightarrow> ('w, 'a) M) \<Rightarrow> ('w, 'a) M" where
  "catchM m h s = (case m s of (Inl e, s') \<Rightarrow> h e s' | (Inr x, s') \<Rightarrow> (Inr x, s'))"

text \<open>A read-only call of a collaborator.\<close>

definition readM :: "('w \<Rightarrow> error + 'a) \<Rightarrow> ('w, 'a) M" where
  "readM f s = (f (world s), s)"

text \<open>A mutating call of a collaborator, recorded in the trace.\<close>

definition callM :: "event \<Rightarrow> ('w \<Rightarrow> (error + 'a) \<times> 'w) \<Rightarrow> ('w, 'a) M" where
  "callM ev f s =
     (case f (world s) of (r, w') \<Rightarrow> (r, s\<lparr>world := w', trace := trace s @ [ev]\<rparr>))"

section \<open>Helpers that are not among the sources\<close>

text \<open>
  Modelled from the spec: \<^verbatim>\<open>eqAddress\<close> of the utils package is not among the sources.
  The spec calls the comparison address-equality.
\<close>

definition eqAddress :: "address \<Rightarrow> address \<Rightarrow> bool" where
  "eqAddress a b = (a = b)"

definition AddressZero :: address where
  "AddressZero = ''0x0000000000000000000000000000000000000000''"

text \<open>\<^verbatim>\<open>String.prototype.includes\<close>.\<close>

fun startsWith :: "string \<Rightarrow> string \<Rightarrow> bool" where
  "startsWith s [] = True"
| "startsWith [] (c # cs) = False"
| "startsWith (d # ds) (c # cs) = (d = c \<and> startsWith ds cs)"

fun strIncludes :: "string \<Rightarrow> string \<Rightarrow> bool" where
  "strIncludes [] sub = (sub = [])"
| "strIncludes (d # ds) sub = (startsWith (d # ds) sub \<or> strIncludes ds sub)"

text \<open>The object spread \<^verbatim>\<open>{...a, ...b}\<close> on objects with string keys.\<close>

definition spread :: "contracts \<Rightarrow> contracts \<Rightarrow> contracts" where
  "spread a b = fold (\<lambda>(k, v). AList.update k v) b a"

text \<open>
  Modelled from the spec: \<^verbatim>\<open>runWithTimeout\<close> of the utils package is not among the sources.
  The budget wraps the whole sequence of a chain; exceeding it aborts that chain's
  deployment with a timeout error, and what was already submitted is not rolled back.
  The wall-clock time the callback takes is given from outside.
\<close>

definition runWithTimeout :: "nat \<Rightarrow> nat \<Rightarrow> ('w, 'a) M \<Rightarrow> ('w, 'a) M" where
  "runWithTimeout timeoutMs elapsedMs callback s =
     (if timeoutMs < elapsedMs
      then (Inl (Error ''Timed out'' None), snd (callback s))
      else callback s)"

section \<open>HyperlaneDeployer\<close>

definition addVerificationArtifacts ::
  "chain \<Rightarrow> ContractVerificationInput list \<Rightarrow> ('w, unit) M" where
  "addVerificationArtifacts chain artifacts s =
     (Inr (), s\<lparr>verificationInputs := (verificationInputs s)
        (chain \<mapsto> (case verificationInputs s chain of None \<Rightarrow> [] | Some xs \<Rightarrow> xs) @ artifacts)\<rparr>)"

definition addDeployedContracts ::
  "chain \<Rightarrow> contracts option \<Rightarrow> ContractVerificationInput list option \<Rightarrow> ('w, unit) M" where
  "addDeployedContracts chain cs vis s =
     (let s' = s\<lparr>deployedContracts := (deployedContracts s)
                 (chain \<mapsto> spread (case deployedContracts s chain of None \<Rightarrow> [] | Some m \<Rightarrow> m)
                                  (case cs of None \<Rightarrow> [] | Some m \<Rightarrow> m))\<rparr>
      in case vis of None \<Rightarrow> (Inr (), s') | Some v \<Rightarrow> addVerificationArtifacts chain v s')"

definition runIf :: "'w env \<Rightarrow> chain \<Rightarrow> address \<Rightarrow> ('w, 'a) M \<Rightarrow> ('w, 'a option) M" where
  "runIf env chain addr fn =
     bindM (readM (getSignerAddress env chain)) (\<lambda>signer.
       if eqAddress addr signer then bindM fn (\<lambda>x. returnM (Some x))
       else returnM None)"

definition runIfOwner :: "'w env \<Rightarrow> chain \<Rightarrow> address \<Rightarrow> ('w, 'a) M \<Rightarrow> ('w, 'a option) M" where
  "runIfOwner env chain ownable fn =
     bindM (readM (callStatic env chain ownable ''owner'')) (\<lambda>ownr.
       runIf env chain ownr fn)"

definition runIfAdmin ::
  "'w env \<Rightarrow> chain \<Rightarrow> address \<Rightarrow> ('w, 'a) M \<Rightarrow> (address \<Rightarrow> ('w, 'a) M) \<Rightarrow> ('w, 'a option) M" where
  "runIfAdmin env chain proxy signerAdminFn proxyAdminOwnerFn =
     bindM (readM (proxyAdmin env chain proxy)) (\<lambda>admin.
     bindM (readM (getCode env chain admin)) (\<lambda>code.
       if code \<noteq> ''0x'' then runIfOwner env chain admin (proxyAdminOwnerFn admin)
       else runIf env chain admin signerAdminFn))"

text \<open>The body of \<^verbatim>\<open>if (!matches)\<close> in \<^verbatim>\<open>configureIsm\<close>.\<close>

definition setIsmIfOwner ::
  "'w env \<Rightarrow> chain \<Rightarrow> address \<Rightarrow> address \<Rightarrow> (address \<Rightarrow> 'w \<Rightarrow> error + address) \<Rightarrow>
   (address \<Rightarrow> address \<Rightarrow> tx) \<Rightarrow> ('w, unit) M" where
  "setIsmIfOwner env chain contract targetIsm getIsm setIsm =
     bindM (runIfOwner env chain contract
        (bindM (callM (SendTransaction chain (setIsm contract targetIsm))
                  (sendTransaction env chain (setIsm contract targetIsm))) (\<lambda>_.
         bindM (readM (getIsm contract)) (\<lambda>actual.
           if \<not> eqAddress targetIsm actual
           then throwM (Error (''Set ISM failed on '' @ chain) None)
           else returnM ()))))
       (\<lambda>_. returnM ())"

text \<open>
  \<^verbatim>\<open>configureIsm\<close>. In the source \<^verbatim>\<open>targetIsm\<close> is left unassigned exactly when a literal
  address matches; the model runs the body of \<^verbatim>\<open>if (!matches)\<close> where it is assigned.
\<close>

definition configureIsm ::
  "'w env \<Rightarrow> chain \<Rightarrow> address \<Rightarrow> IsmConfig \<Rightarrow> (address \<Rightarrow> 'w \<Rightarrow> error + address) \<Rightarrow>
   (address \<Rightarrow> address \<Rightarrow> tx) \<Rightarrow> ('w, unit) M" where
  "configureIsm env chain contract config getIsm setIsm =
     bindM (readM (getIsm contract)) (\<lambda>configuredIsm.
       case config of
         IsmAddress a \<Rightarrow>
           if eqAddress configuredIsm a then returnM ()
           else setIsmIfOwner env chain contract a getIsm setIsm
       | _ \<Rightarrow>
           (case ismFactory env of
              None \<Rightarrow> throwM (Error ''No ISM factory provided'' None)
            | Some factoryDeploy \<Rightarrow>
                bindM (readM (moduleMatchesConfig env chain configuredIsm config)) (\<lambda>matches.
                bindM (callM (IsmFactoryDeploy chain config) (factoryDeploy chain config None))
                  (\<lambda>targetIsm.
                  if \<not> matches then setIsmIfOwner env chain contract targetIsm getIsm setIsm
                  else returnM ()))))"

definition configureHook ::
  "'w env \<Rightarrow> chain \<Rightarrow> address \<Rightarrow> address \<Rightarrow> (address \<Rightarrow> 'w \<Rightarrow> error + address) \<Rightarrow>
   (address \<Rightarrow> address \<Rightarrow> tx) \<Rightarrow> ('w, unit) M" where
  "configureHook env chain contract targetHook getHook setHook =
     bindM (readM (getHook contract)) (\<lambda>configuredHook.
       if \<not> eqAddress targetHook configuredHook then
         bindM (runIfOwner env chain contract
            (bindM (callM (SendTransaction chain (setHook contract targetHook))
                      (sendTransaction env chain (setHook contract targetHook))) (\<lambda>_.
             bindM (readM (getHook contract)) (\<lambda>actualHook.
               if \<not> eqAddress targetHook actualHook
               then throwM (Error (''Set hook failed on '' @ chain @ '', wanted '' @ targetHook
                                     @ '', got '' @ actualHook) None)
               else returnM True))))
           (\<lambda>result.
              case result of
                Some True \<Rightarrow> returnM ()
              | _ \<Rightarrow> addDeployedContracts chain (Some [(''customHook'', targetHook)]) None)
       else returnM ())"

definition configureClient ::
  "'w env \<Rightarrow> chain \<Rightarrow> address \<Rightarrow> MailboxClientConfig \<Rightarrow> ('w, unit) M" where
  "configureClient env local client config =
     bindM (case hook config of
              None \<Rightarrow> returnM ()
            | Some h \<Rightarrow>
                if h \<noteq> [] then
                  configureHook env local client h
                    (\<lambda>c. callStatic env local c ''hook'')
                    (\<lambda>c h'. Tx c ''setHook'' [ArgAddress h'])
                else returnM ()) (\<lambda>_.
       case interchainSecurityModule config of
         None \<Rightarrow> returnM ()
       | Some i \<Rightarrow>
           if i \<noteq> IsmAddress [] then
             configureIsm env local client i
               (\<lambda>c. callStatic env local c ''interchainSecurityModule'')
               (\<lambda>c m. Tx c ''setInterchainSecurityModule'' [ArgAddress m])
           else returnM ())"

definition writeCache :: "chain \<Rightarrow> string \<Rightarrow> address \<Rightarrow> ('w, unit) M" where
  "writeCache chain contractName addr s =
     (Inr (), s\<lparr>cachedAddresses := (cachedAddresses s)
        (chain \<mapsto> (case cachedAddresses s chain of None \<Rightarrow> Map.empty | Some m \<Rightarrow> m)
                     (contractName \<mapsto> addr))\<rparr>)"

definition readCache :: "chain \<Rightarrow> string \<Rightarrow> 'w dstate \<Rightarrow> address option" where
  "readCache chain contractName s =
     (case cachedAddresses s chain of
        None \<Rightarrow> None
      | Some m \<Rightarrow>
          (case m contractName of
             None \<Rightarrow> None
           | Some cachedAddress \<Rightarrow>
               if cachedAddress \<noteq> [] \<and> cachedAddress \<noteq> AddressZero
               then Some cachedAddress else None))"

text \<open>
  Modelled from the spec: \<^verbatim>\<open>proxyConstructorArgs\<close> of sdk/src/deploy/proxy and
  \<^verbatim>\<open>buildVerificationInput\<close>, \<^verbatim>\<open>getContractVerificationInput\<close> of sdk/src/deploy/verify/utils
  are not among the sources. The constructor arguments of a proxy are the implementation
  address, the admin address and the encoded initializer call.
\<close>

definition proxyConstructorArgs :: "address \<Rightarrow> address \<Rightarrow> arg list option \<Rightarrow> arg list" where
  "proxyConstructorArgs implementation admin initializeArgs =
     [ArgAddress implementation, ArgAddress admin,
      (case initializeArgs of None \<Rightarrow> ArgBytes ''0x'' | Some a \<Rightarrow> ArgCall ''initialize'' a)]"

definition buildVerificationInput ::
  "string \<Rightarrow> address \<Rightarrow> arg list \<Rightarrow> ContractVerificationInput" where
  "buildVerificationInput n a cargs = \<lparr>name = n, address = a, constructorArguments = cargs\<rparr>"

definition recoverVerificationArtifacts ::
  "'w env \<Rightarrow> chain \<Rightarrow> string \<Rightarrow> address \<Rightarrow> arg list \<Rightarrow> arg list option \<Rightarrow>
   ('w, ContractVerificationInput list) M" where
  "recoverVerificationArtifacts env chain contractName cachedContract constructorArgs
     initializeArgs =
     bindM (readM (isProxyAt env chain cachedContract)) (\<lambda>isProxied.
     bindM (if isProxied then readM (proxyImplementation env chain cachedContract)
            else returnM cachedContract) (\<lambda>implementation.
       let implementationInput =
             buildVerificationInput contractName implementation constructorArgs
       in if \<not> isProxied then returnM [implementationInput]
          else bindM (readM (proxyAdmin env chain cachedContract)) (\<lambda>admin.
            returnM [implementationInput,
                     buildVerificationInput ''TransparentUpgradeableProxy'' cachedContract
                       (proxyConstructorArgs implementation admin initializeArgs)])))"

text \<open>
  \<^verbatim>\<open>deployContractFromFactory\<close>. A contract factory is identified by its name. The call of
  \<^verbatim>\<open>initialize\<close> and the wait for its inclusion are one \<^verbatim>\<open>handleTx\<close>.
\<close>

definition deployContractFromFactory ::
  "'w env \<Rightarrow> chain \<Rightarrow> string \<Rightarrow> string \<Rightarrow> arg list \<Rightarrow> arg list option \<Rightarrow> bool \<Rightarrow>
   ('w, address) M" where
  "deployContractFromFactory env chain factory contractName constructorArgs initializeArgs
     shouldRecover s =
     (case (if shouldRecover then readCache chain contractName s else None) of
        Some cachedContract \<Rightarrow>
          bindM (if recoverVerificationInputs env then
                   bindM (recoverVerificationArtifacts env chain contractName cachedContract
                            constructorArgs initializeArgs)
                     (\<lambda>recoveredInputs. addVerificationArtifacts chain recoveredInputs)
                 else returnM ())
            (\<lambda>_. returnM cachedContract) s
      | None \<Rightarrow>
          bindM (callM (HandleDeploy chain factory constructorArgs)
                   (handleDeploy env chain factory constructorArgs)) (\<lambda>contract.
          bindM (case initializeArgs of
                   None \<Rightarrow> returnM ()
                 | Some ia \<Rightarrow>
                     bindM (callM (HandleTx chain (Tx contract ''initialize'' ia))
                              (handleTx env chain (Tx contract ''initialize'' ia)))
                       (\<lambda>_. returnM ())) (\<lambda>_.
          let verificationInput = buildVerificationInput contractName contract constructorArgs
          in bindM (addVerificationArtifacts chain [verificationInput]) (\<lambda>_.
             bindM (catchM (callM (VerifyContract chain contractName)
                              (verifyContract env chain verificationInput))
                      (\<lambda>_. returnM ())) (\<lambda>_.
             returnM contract)))) s)"

definition deployContractWithName ::
  "'w env \<Rightarrow> chain \<Rightarrow> string \<Rightarrow> string \<Rightarrow> arg list \<Rightarrow> arg list option \<Rightarrow> bool \<Rightarrow>
   ('w, address) M" where
  "deployContractWithName env chain contractKey contractName constructorArgs initializeArgs
     shouldRecover =
     bindM (deployContractFromFactory env chain contractKey contractName constructorArgs
              initializeArgs shouldRecover) (\<lambda>contract.
     bindM (writeCache chain contractName contract) (\<lambda>_.
     returnM contract))"

definition deployContract ::
  "'w env \<Rightarrow> chain \<Rightarrow> string \<Rightarrow> arg list \<Rightarrow> arg list option \<Rightarrow> bool \<Rightarrow> ('w, address) M" where
  "deployContract env chain contractKey constructorArgs initializeArgs shouldRecover =
     deployContractWithName env chain contractKey contractKey constructorArgs initializeArgs
       shouldRecover"

definition changeAdmin :: "'w env \<Rightarrow> chain \<Rightarrow> address \<Rightarrow> address \<Rightarrow> ('w, unit) M" where
  "changeAdmin env chain proxy admin =
     bindM (readM (proxyAdmin env chain proxy)) (\<lambda>actualAdmin.
       if eqAddress admin actualAdmin then returnM ()
       else bindM (runIfAdmin env chain proxy
                     (callM (HandleTx chain (Tx proxy ''changeAdmin'' [ArgAddress admin]))
                        (handleTx env chain (Tx proxy ''changeAdmin'' [ArgAddress admin])))
                     (\<lambda>pa. callM (HandleTx chain (Tx pa ''changeProxyAdmin''
                                                   [ArgAddress proxy, ArgAddress admin]))
                             (handleTx env chain (Tx pa ''changeProxyAdmin''
                                                   [ArgAddress proxy, ArgAddress admin]))))
              (\<lambda>_. returnM ()))"

definition upgradeAndInitialize ::
  "'w env \<Rightarrow> chain \<Rightarrow> address \<Rightarrow> address \<Rightarrow> arg list \<Rightarrow> ('w, unit) M" where
  "upgradeAndInitialize env chain proxy implementation initializeArgs =
     bindM (readM (callStatic env chain proxy ''implementation'')) (\<lambda>current.
       if eqAddress implementation current then returnM ()
       else
         let initData = ArgCall ''initialize'' initializeArgs
         in bindM (runIfAdmin env chain proxy
                     (callM (HandleTx chain (Tx proxy ''upgradeToAndCall''
                                               [ArgAddress implementation, initData]))
                        (handleTx env chain (Tx proxy ''upgradeToAndCall''
                                               [ArgAddress implementation, initData])))
                     (\<lambda>pa. callM (HandleTx chain (Tx pa ''upgradeAndCall''
                                     [ArgAddress proxy, ArgAddress implementation, initData]))
                             (handleTx env chain (Tx pa ''upgradeAndCall''
                                     [ArgAddress proxy, ArgAddress implementation, initData]))))
              (\<lambda>_. returnM ()))"

definition deployProxy ::
  "'w env \<Rightarrow> chain \<Rightarrow> address \<Rightarrow> address \<Rightarrow> arg list option \<Rightarrow> ('w, address) M" where
  "deployProxy env chain implementation admin initializeArgs =
     bindM (readM (isProxyAt env chain implementation)) (\<lambda>isProxied.
       if isProxied then returnM implementation
       else
         bindM (deployContractFromFactory env chain ''TransparentUpgradeableProxy''
                  ''TransparentUpgradeableProxy''
                  (proxyConstructorArgs implementation admin initializeArgs) None True)
           (\<lambda>proxy. returnM proxy))"

definition deployTimelock :: "'w env \<Rightarrow> chain \<Rightarrow> TimelockConfig \<Rightarrow> ('w, address) M" where
  "deployTimelock env chain timelockConfig =
     (let cargs = [ArgNumber (delay timelockConfig),
                   ArgList [ArgAddress (proposer (roles timelockConfig))],
                   ArgList [ArgAddress (executor (roles timelockConfig))],
                   ArgAddress AddressZero]
      in callM (HandleDeploy chain ''TimelockController'' cargs)
           (handleDeploy env chain ''TimelockController'' cargs))"

definition deployProxiedContract ::
  "'w env \<Rightarrow> chain \<Rightarrow> string \<Rightarrow> string \<Rightarrow> address \<Rightarrow> arg list \<Rightarrow> arg list option \<Rightarrow>
   ('w, address) M" where
  "deployProxiedContract env chain contractKey contractName admin constructorArgs
     initializeArgs =
     bindM (deployContractWithName env chain contractKey contractName constructorArgs
              initializeArgs True) (\<lambda>implementation.
     bindM (deployProxy env chain implementation admin initializeArgs) (\<lambda>contract.
     bindM (writeCache chain contractName contract) (\<lambda>_.
     returnM contract)))"

text \<open>
  \<^verbatim>\<open>transferOwnershipOfContracts\<close>: the loop over the entries of \<^verbatim>\<open>ownables\<close>, with the
  receipts collected so far.
\<close>

fun transferOwnershipLoop ::
  "'w env \<Rightarrow> chain \<Rightarrow> 'z OwnableConfig_scheme \<Rightarrow> (string \<times> address option) list \<Rightarrow>
   receipt list \<Rightarrow> ('w, receipt list) M" where
  "transferOwnershipLoop env chain config [] receipts = returnM receipts"
| "transferOwnershipLoop env chain config ((contractName, ownable) # rest) receipts =
     (case ownable of
        None \<Rightarrow> transferOwnershipLoop env chain config rest receipts
      | Some ownable \<Rightarrow>
          bindM (readM (callStatic env chain ownable ''owner'')) (\<lambda>current.
            let ownr = (case ownerOverrides config of
                          None \<Rightarrow> owner config
                        | Some ov \<Rightarrow>
                            (case map_of ov contractName of
                               None \<Rightarrow> owner config
                             | Some x \<Rightarrow> x))
            in if \<not> eqAddress current ownr then
                 bindM (runIfOwner env chain ownable
                          (callM (HandleTx chain (Tx ownable ''transferOwnership''
                                                    [ArgAddress ownr]))
                             (handleTx env chain (Tx ownable ''transferOwnership''
                                                    [ArgAddress ownr]))))
                   (\<lambda>receipt.
                      transferOwnershipLoop env chain config rest
                        (case receipt of None \<Rightarrow> receipts | Some r \<Rightarrow> receipts @ [r]))
               else transferOwnershipLoop env chain config rest receipts))"

definition transferOwnershipOfContracts ::
  "'w env \<Rightarrow> chain \<Rightarrow> 'z OwnableConfig_scheme \<Rightarrow> (string \<times> address option) list \<Rightarrow>
   ('w, receipt list) M" where
  "transferOwnershipOfContracts env chain config ownables =
     transferOwnershipLoop env chain config ownables []"

text \<open>
  \<^verbatim>\<open>deploy\<close>. The configuration map is an association list in the order of its keys;
  the abstract \<^verbatim>\<open>deployContracts\<close> is the parameter \<open>dc\<close>, which receives
  \<^verbatim>\<open>configMap[chain]\<close>.
\<close>

fun ethereumConfigChains :: "'w env \<Rightarrow> chain list \<Rightarrow> error + chain list" where
  "ethereumConfigChains env [] = Inr []"
| "ethereumConfigChains env (c # cs) =
     (case getChainMetadata env c of
        Inl e \<Rightarrow> Inl e
      | Inr p \<Rightarrow>
          (case ethereumConfigChains env cs of
             Inl e \<Rightarrow> Inl e
           | Inr r \<Rightarrow> Inr (if p = Ethereum then c # r else r)))"

definition setStartingBlockNumber :: "chain \<Rightarrow> nat \<Rightarrow> ('w, unit) M" where
  "setStartingBlockNumber chain n s =
     (Inr (), s\<lparr>startingBlockNumbers := (startingBlockNumbers s)(chain \<mapsto> n)\<rparr>)"

definition deployChain ::
  "'w env \<Rightarrow> (chain \<Rightarrow> 'c option \<Rightarrow> ('w, contracts option) M) \<Rightarrow> (chain \<times> 'c) list \<Rightarrow>
   chain \<Rightarrow> ('w, unit) M" where
  "deployChain env dc configMap chain =
     bindM (readM (tryGetExplorerAddressUrl env chain)) (\<lambda>signerUrl.
     bindM (readM (getSignerAddress env chain)) (\<lambda>signerAddress.
     bindM (readM (getBlockNumber env chain)) (\<lambda>blockNumber.
     bindM (setStartingBlockNumber chain blockNumber) (\<lambda>_.
     runWithTimeout (chainTimeoutMs env) (duration env chain)
       (bindM (dc chain (map_of configMap chain)) (\<lambda>cs.
        addDeployedContracts chain cs None))))))"

fun deployChains ::
  "'w env \<Rightarrow> (chain \<Rightarrow> 'c option \<Rightarrow> ('w, contracts option) M) \<Rightarrow> (chain \<times> 'c) list \<Rightarrow>
   chain list \<Rightarrow> ('w, unit) M" where
  "deployChains env dc configMap [] = returnM ()"
| "deployChains env dc configMap (chain # rest) =
     bindM (deployChain env dc configMap chain) (\<lambda>_. deployChains env dc configMap rest)"

definition deploy ::
  "'w env \<Rightarrow> (chain \<Rightarrow> 'c option \<Rightarrow> ('w, contracts option) M) \<Rightarrow> (chain \<times> 'c) list \<Rightarrow>
   ('w, chain \<rightharpoonup> contracts) M" where
  "deploy env dc configMap =
     (case ethereumConfigChains env (map fst configMap) of
        Inl e \<Rightarrow> throwM e
      | Inr eth \<Rightarrow>
          (case intersect env eth True of
             Inl e \<Rightarrow> throwM e
           | Inr targetChains \<Rightarrow>
               bindM (deployChains env dc configMap targetChains) (\<lambda>_ s.
                 (Inr (deployedContracts s), s))))"

section \<open>HyperlaneCoreDeployer\<close>

text \<open>What JavaScript throws when a property of \<^verbatim>\<open>undefined\<close> is read.\<close>

definition typeError :: "string \<Rightarrow> error" where
  "typeError prop =
     Error (''Cannot read properties of undefined (reading '' @ [CHR 0x27] @ prop
            @ [CHR 0x27] @ '')'') None"

text \<open>\<^verbatim>\<open>deployHook\<close>; the result is \<^verbatim>\<open>hooks[config.type]\<close>, which may be undefined.\<close>

definition deployHook ::
  "'w env \<Rightarrow> chain \<Rightarrow> HookConfig \<Rightarrow> contracts \<Rightarrow> ('w, address option) M" where
  "deployHook env chain config coreAddresses =
     bindM (callM (HookDeploy chain config)
              (hookDeployContracts env chain config coreAddresses)) (\<lambda>hooks.
     bindM (\<lambda>s. addDeployedContracts chain (hookDeployedContracts env chain (world s))
                   (hookVerificationInputs env chain (world s)) s) (\<lambda>_.
     returnM (map_of hooks (hookType config))))"

definition deployIsm :: "'w env \<Rightarrow> chain \<Rightarrow> IsmConfig \<Rightarrow> address \<Rightarrow> ('w, address) M" where
  "deployIsm env chain config mailbox =
     (case ismFactory env of
        None \<Rightarrow> throwM (typeError ''deploy'')
      | Some factoryDeploy \<Rightarrow>
          bindM (callM (IsmFactoryDeploy chain config)
                   (factoryDeploy chain config (Some mailbox)))
            (\<lambda>ism.
          bindM (\<lambda>s. addDeployedContracts chain (deployedIsms env chain (world s)) None s)
            (\<lambda>_.
          returnM ism)))"

definition deployTestRecipient ::
  "'w env \<Rightarrow> chain \<Rightarrow> IsmConfig option \<Rightarrow> ('w, address option) M" where
  "deployTestRecipient env chain ism =
     bindM (callM (TestRecipientDeploy chain) (testRecipientDeployContracts env chain ism))
       (\<lambda>testRecipient.
     bindM (addDeployedContracts chain (Some testRecipient) None) (\<lambda>_.
     returnM (map_of testRecipient ''testRecipient'')))"

definition deployValidatorAnnounce :: "'w env \<Rightarrow> chain \<Rightarrow> address \<Rightarrow> ('w, address) M" where
  "deployValidatorAnnounce env chain mailboxAddress =
     deployContract env chain ''validatorAnnounce'' [ArgAddress mailboxAddress] None True"

text \<open>\<^verbatim>\<open>this.cachedAddresses[chain].interchainSecurityModule = defaultIsm\<close>.\<close>

definition cacheInterchainSecurityModule :: "chain \<Rightarrow> address \<Rightarrow> ('w, unit) M" where
  "cacheInterchainSecurityModule chain ism s =
     (case cachedAddresses s chain of
        None \<Rightarrow> (Inl (typeError ''interchainSecurityModule''), s)
      | Some m \<Rightarrow>
          (Inr (), s\<lparr>cachedAddresses := (cachedAddresses s)
                        (chain \<mapsto> m(''interchainSecurityModule'' \<mapsto> ism))\<rparr>))"

text \<open>The test of the \<^verbatim>\<open>catch\<close> clause of \<^verbatim>\<open>deployMailbox\<close> under which the error is thrown again.\<close>

definition rethrown :: "error \<Rightarrow> bool" where
  "rethrown e =
     (\<not> strIncludes (message e) ''already initialized'' \<and>
      \<not> strIncludes (message e) ''Reverted 0x08c379a'' \<and>
      \<not> (case reason e of None \<Rightarrow> False | Some r \<Rightarrow> strIncludes r ''already initialized''))"

text \<open>The rest of the \<^verbatim>\<open>catch\<close> clause: the configuration of an initialized mailbox.\<close>

definition reconcileMailbox ::
  "'w env \<Rightarrow> chain \<Rightarrow> address \<Rightarrow> address \<Rightarrow> address \<Rightarrow> address \<Rightarrow> ('w, unit) M" where
  "reconcileMailbox env chain mailbox ism dHook rHook =
     bindM (configureHook env chain mailbox dHook
              (\<lambda>c. callStatic env chain c ''defaultHook'')
              (\<lambda>c h. Tx c ''setDefaultHook'' [ArgAddress h])) (\<lambda>_.
     bindM (configureHook env chain mailbox rHook
              (\<lambda>c. callStatic env chain c ''requiredHook'')
              (\<lambda>c h. Tx c ''setRequiredHook'' [ArgAddress h])) (\<lambda>_.
     configureIsm env chain mailbox (IsmAddress ism)
       (\<lambda>c. callStatic env chain c ''defaultIsm'')
       (\<lambda>c m. Tx c ''setDefaultIsm'' [ArgAddress m])))"

text \<open>
  The \<^verbatim>\<open>try\<close> statement of \<^verbatim>\<open>deployMailbox\<close>. When a hook is undefined, reading its
  address inside \<^verbatim>\<open>try\<close> throws a type error, which the \<^verbatim>\<open>catch\<close> clause throws again.
\<close>

definition initializeMailbox ::
  "'w env \<Rightarrow> chain \<Rightarrow> CoreConfig \<Rightarrow> address \<Rightarrow> address \<Rightarrow> address option \<Rightarrow>
   address option \<Rightarrow> ('w, unit) M" where
  "initializeMailbox env chain config mailbox ism dHook rHook =
     (case (dHook, rHook) of
        (Some dh, Some rh) \<Rightarrow>
          (let initTx = Tx mailbox ''initialize''
                 [ArgAddress (owner config), ArgAddress ism, ArgAddress dh, ArgAddress rh]
           in catchM (bindM (callM (HandleTx chain initTx) (handleTx env chain initTx))
                        (\<lambda>_. returnM ()))
                (\<lambda>e. if rethrown e then throwM e
                      else reconcileMailbox env chain mailbox ism dh rh))
      | _ \<Rightarrow> throwM (typeError ''address''))"

definition deployMailbox ::
  "'w env \<Rightarrow> chain \<Rightarrow> CoreConfig \<Rightarrow> address \<Rightarrow> ('w, address) M" where
  "deployMailbox env chain config admin =
     bindM (deployProxiedContract env chain ''mailbox'' ''mailbox'' admin
              [ArgNumber (getDomainId env chain)] None) (\<lambda>mailbox.
     bindM (readM (callStatic env chain mailbox ''defaultIsm'')) (\<lambda>configuredIsm.
     bindM (readM (moduleMatchesConfig env chain configuredIsm (defaultIsm config)))
       (\<lambda>matches.
     bindM (if \<not> matches then deployIsm env chain (defaultIsm config) mailbox
            else returnM configuredIsm) (\<lambda>ism.
     bindM (cacheInterchainSecurityModule chain ism) (\<lambda>_.
     let hookAddresses = [(''mailbox'', mailbox), (''proxyAdmin'', admin)]
     in bindM (deployHook env chain (defaultHook config) hookAddresses) (\<lambda>dHook.
        bindM (deployHook env chain (requiredHook config) hookAddresses) (\<lambda>rHook.
        bindM (initializeMailbox env chain config mailbox ism dHook rHook) (\<lambda>_.
        returnM mailbox))))))))"

text \<open>
  \<^verbatim>\<open>deployContracts\<close>. The returned contract map leaves out a test recipient that is
  undefined.
\<close>

definition deployContracts ::
  "'w env \<Rightarrow> chain \<Rightarrow> CoreConfig option \<Rightarrow> ('w, contracts option) M" where
  "deployContracts env chain configOpt =
     (case configOpt of
        None \<Rightarrow> throwM (typeError ''remove'')
      | Some config \<Rightarrow>
          if remove config then returnM None
          else
            bindM (deployContract env chain ''proxyAdmin'' [] None True) (\<lambda>admin.
            bindM (deployMailbox env chain config admin) (\<lambda>mailbox.
            bindM (deployValidatorAnnounce env chain mailbox) (\<lambda>validatorAnnounce.
            bindM (case upgrade config of
                     None \<Rightarrow> returnM config
                   | Some up \<Rightarrow>
                       bindM (deployTimelock env chain up) (\<lambda>timelockController.
                       returnM (config\<lparr>ownerOverrides :=
                         Some (AList.update ''proxyAdmin'' timelockController
                                 (case ownerOverrides config of None \<Rightarrow> [] | Some ov \<Rightarrow> ov))\<rparr>)))
              (\<lambda>config'.
            bindM (\<lambda>s. case cachedAddresses s chain of
                          None \<Rightarrow> (Inl (typeError ''interchainSecurityModule''), s)
                        | Some m \<Rightarrow>
                            deployTestRecipient env chain
                              (map_option IsmAddress (m ''interchainSecurityModule'')) s)
              (\<lambda>testRecipient.
            bindM (transferOwnershipOfContracts env chain config'
                     [(''mailbox'', Some mailbox), (''proxyAdmin'', Some admin),
                      (''validatorAnnounce'', Some validatorAnnounce),
                      (''testRecipient'', testRecipient)]) (\<lambda>_.
            returnM (Some ([(''mailbox'', mailbox), (''proxyAdmin'', admin),
                            (''validatorAnnounce'', validatorAnnounce)]
                           @ (case testRecipient of
                                None \<Rightarrow> []
                              | Some t \<Rightarrow> [(''testRecipient'', t)]))))))))))"

section \<open>Mailbox setters\<close>


section \<open>Traces\<close>

text \<open>Transactions that set a hook, set a module or transfer ownership.\<close>

definition isSetHook :: "event \<Rightarrow> bool" where
  "isSetHook ev =
     (case ev of
        SendTransaction _ t \<Rightarrow>
          func t = ''setHook'' \<or> func t = ''setDefaultHook'' \<or> func t = ''setRequiredHook''
      | _ \<Rightarrow> False)"

definition isSetIsm :: "event \<Rightarrow> bool" where
  "isSetIsm ev =
     (case ev of
        SendTransaction _ t \<Rightarrow>
          func t = ''setInterchainSecurityModule'' \<or> func t = ''setDefaultIsm''
      | _ \<Rightarrow> False)"

definition isTransfer :: "event \<Rightarrow> bool" where
  "isTransfer ev = (case ev of HandleTx _ t \<Rightarrow> func t = ''transferOwnership'' | _ \<Rightarrow> False)"

text \<open>Deployments, initializations and calls of the deployment collaborators.\<close>

definition isSetup :: "event \<Rightarrow> bool" where
  "isSetup ev =
     (case ev of
        SendTransaction _ _ \<Rightarrow> False
      | HandleTx _ t \<Rightarrow> func t = ''initialize''
      | _ \<Rightarrow> True)"

text \<open>The events that a run of \<open>m\<close> from the state \<open>s\<close> adds to the trace.\<close>

definition emitted :: "('w, 'a) M \<Rightarrow> 'w dstate \<Rightarrow> event list" where
  "emitted m s = drop (length (trace s)) (trace (snd (m s)))"

text \<open>In a list of events, no event of kind \<open>Q\<close> comes before an event of kind \<open>P\<close>.\<close>

fun allBefore :: "(event \<Rightarrow> bool) \<Rightarrow> (event \<Rightarrow> bool) \<Rightarrow> event list \<Rightarrow> bool" where
  "allBefore P Q [] = True"
| "allBefore P Q (e # es) = ((Q e \<longrightarrow> (\<forall>x \<in> set es. \<not> P x)) \<and> allBefore P Q es)"

text \<open>
  Every run of \<open>m\<close> only appends to the trace, and only events of kind \<open>P\<close>; in the
  two-phase form, events of kind \<open>P\<close> followed by events of kind \<open>Q\<close>.
\<close>

definition emits :: "(event \<Rightarrow> bool) \<Rightarrow> ('w, 'a) M \<Rightarrow> bool" where
  "emits P m \<longleftrightarrow> (\<forall>s. \<exists>evs. trace (snd (m s)) = trace s @ evs \<and> (\<forall>e \<in> set evs. P e))"

definition emitsThen :: "(event \<Rightarrow> bool) \<Rightarrow> (event \<Rightarrow> bool) \<Rightarrow> ('w, 'a) M \<Rightarrow> bool" where
  "emitsThen P Q m \<longleftrightarrow>
     (\<forall>s. \<exists>xs ys. trace (snd (m s)) = trace s @ xs @ ys \<and>
                   (\<forall>e \<in> set xs. P e) \<and> (\<forall>e \<in> set ys. Q e))"

section \<open>A simulated chain for concrete runs\<close>

text \<open>
  A small single-chain world on which the engine can be run: the values behind the
  getters of every contract, the addresses that hold code and the contracts that were
  initialized. Setters and \<^verbatim>\<open>transferOwnership\<close> revert for a caller that is not the owner;
  \<^verbatim>\<open>initialize\<close> reverts on an initialized contract.
\<close>

record sim =
  slot :: "address \<Rightarrow> string \<Rightarrow> address"
  deployedCode :: "address list"
  initialized :: "address list"

definition sim0 :: sim where
  "sim0 = \<lparr>slot = (\<lambda>_ _. []), deployedCode = [], initialized = []\<rparr>"

definition simSet :: "address \<Rightarrow> string \<Rightarrow> address \<Rightarrow> sim \<Rightarrow> sim" where
  "simSet a g v w = w\<lparr>slot := (slot w)(a := (slot w a)(g := v))\<rparr>"

definition getterOf :: "string \<Rightarrow> string option" where
  "getterOf m =
     (if m = ''setHook'' then Some ''hook''
      else if m = ''setDefaultHook'' then Some ''defaultHook''
      else if m = ''setRequiredHook'' then Some ''requiredHook''
      else if m = ''setInterchainSecurityModule'' then Some ''interchainSecurityModule''
      else if m = ''setDefaultIsm'' then Some ''defaultIsm''
      else if m = ''transferOwnership'' then Some ''owner''
      else None)"

definition simTx :: "address \<Rightarrow> tx \<Rightarrow> sim \<Rightarrow> (error + receipt) \<times> sim" where
  "simTx signer t w =
     (if func t = ''initialize'' then
        (case args t of
           [ArgAddress ow, ArgAddress i, ArgAddress dh, ArgAddress rh] \<Rightarrow>
             if to t \<in> set (initialized w) then
               (Inl (Error ''execution reverted: Initializable: contract is already initialized''
                       None), w)
             else
               (Inr ''receipt'',
                (simSet (to t) ''owner'' ow (simSet (to t) ''defaultIsm'' i
                   (simSet (to t) ''defaultHook'' dh (simSet (to t) ''requiredHook'' rh w))))
                \<lparr>initialized := to t # initialized w\<rparr>)
         | _ \<Rightarrow> (Inr ''receipt'', w))
      else
        (case (getterOf (func t), args t) of
           (Some g, [ArgAddress v]) \<Rightarrow>
             if slot w (to t) ''owner'' = signer then (Inr ''receipt'', simSet (to t) g v w)
             else (Inl (Error ''execution reverted: Ownable: caller is not the owner'' None), w)
         | _ \<Rightarrow> (Inr ''receipt'', w)))"

definition simDeploy :: "address \<Rightarrow> string \<Rightarrow> arg list \<Rightarrow> sim \<Rightarrow> (error + address) \<times> sim" where
  "simDeploy signer factory cargs w =
     (let a = replicate (Suc (length (deployedCode w))) CHR ''c'';
          w1 = w\<lparr>deployedCode := deployedCode w @ [a]\<rparr>
      in (Inr a,
          (case cargs of
             ArgAddress impl # ArgAddress adm # _ \<Rightarrow>
               if factory = ''TransparentUpgradeableProxy''
               then simSet a ''admin'' adm (simSet a ''implementation'' impl w1)
               else simSet a ''owner'' signer w1
           | _ \<Rightarrow> simSet a ''owner'' signer w1)))"

definition simEnv :: "address \<Rightarrow> sim env" where
  "simEnv signer =
     \<lparr>chainTimeoutMs = 600000,
      recoverVerificationInputs = False,
      duration = (\<lambda>_. 1000),
      getChainMetadata = (\<lambda>c. Inr (if c = ''solana'' then Sealevel else Ethereum)),
      intersect = (\<lambda>cs _. Inr cs),
      tryGetExplorerAddressUrl = (\<lambda>_ _. Inr None),
      getSignerAddress = (\<lambda>_ _. Inr signer),
      getBlockNumber = (\<lambda>_ w. Inr (length (deployedCode w))),
      getCode = (\<lambda>_ a w. Inr (if a \<in> set (deployedCode w) then ''0x60'' else ''0x'')),
      getDomainId = (\<lambda>_. 1),
      callStatic = (\<lambda>_ a m w. Inr (slot w a m)),
      sendTransaction = (\<lambda>_. simTx signer),
      handleTx = (\<lambda>_. simTx signer),
      handleDeploy = (\<lambda>_. simDeploy signer),
      isProxyAt = (\<lambda>_ a w. Inr (slot w a ''admin'' \<noteq> [])),
      proxyAdmin = (\<lambda>_ a w. Inr (slot w a ''admin'')),
      proxyImplementation = (\<lambda>_ a w. Inr (slot w a ''implementation'')),
      moduleMatchesConfig =
        (\<lambda>_ a cfg w. Inr (case cfg of IsmAddress b \<Rightarrow> a = b | _ \<Rightarrow> a = ''ism'')),
      ismFactory =
        Some (\<lambda>_ cfg _ w. (Inr (case cfg of IsmAddress b \<Rightarrow> b | _ \<Rightarrow> ''ism''), w)),
      deployedIsms = (\<lambda>_ _. None),
      verifyContract = (\<lambda>_ _ w. (Inr (), w)),
      hookDeployContracts = (\<lambda>_ cfg _ w. (Inr [(hookType cfg, ''hook-'' @ hookType cfg)], w)),
      hookDeployedContracts = (\<lambda>_ _. None),
      hookVerificationInputs = (\<lambda>_ _. None),
      testRecipientDeployContracts =
        (\<lambda>_ _ w. (Inr [(''testRecipient'', ''tr'')],
                   if slot w ''tr'' ''owner'' = [] then simSet ''tr'' ''owner'' signer w else w))\<rparr>"

definition state0 :: "'w \<Rightarrow> 'w dstate" where
  "state0 w =
     \<lparr>world = w, trace = [], cachedAddresses = Map.empty, deployedContracts = Map.empty,
      verificationInputs = Map.empty, startingBlockNumbers = Map.empty\<rparr>"

definition simConfig :: "TimelockConfig option \<Rightarrow> CoreConfig" where
  "simConfig up =
     \<lparr>owner = ''deployer'', ownerOverrides = None,
      defaultIsm = MultisigIsm [''v1'', ''v2''] 2,
      defaultHook = \<lparr>hookType = ''merkle'', hookParams = []\<rparr>,
      requiredHook = \<lparr>hookType = ''protocolFee'', hookParams = []\<rparr>,
      remove = False,
      upgrade = up\<rparr>"

text \<open>
  A stand-in for the abstract \<^verbatim>\<open>deployContracts\<close>: it throws on one chain and returns a
  one-contract map on every other.
\<close>

definition failingOn ::
  "chain \<Rightarrow> error \<Rightarrow> chain \<Rightarrow> 'c option \<Rightarrow> ('w, contracts option) M" where
  "failingOn bad e chain cfg =
     (if chain = bad then throwM e else returnM (Some [(''mailbox'', ''mailbox-'' @ chain)]))"

text \<open>A world in which the contract \<open>m\<close> and the proxy admin \<open>pa\<close> belong to \<open>deployer\<close>.\<close>

definition ownedWorld :: sim where
  "ownedWorld =
     simSet ''m'' ''owner'' ''deployer''
       (simSet ''m'' ''hook'' ''oldHook''
         (simSet ''m'' ''interchainSecurityModule'' ''oldIsm''
           (simSet ''pa'' ''owner'' ''deployer''
             (simSet ''p'' ''admin'' ''pa''
               (simSet ''q'' ''admin'' ''deployer''
                 (sim0\<lparr>deployedCode := [''m'', ''pa'', ''p'', ''q'']\<rparr>))))))"

text \<open>A chain client whose \<^verbatim>\<open>sendTransaction\<close> reports inclusion but changes nothing.\<close>

definition deafEnv :: "address \<Rightarrow> sim env" where
  "deafEnv signer = (simEnv signer)\<lparr>sendTransaction := (\<lambda>_ _ w. (Inr ''receipt'', w))\<rparr>"

text \<open>The world \<open>ownedWorld\<close> with the module of \<open>m\<close> being the one the ISM factory deploys.\<close>

definition matchingWorld :: sim where
  "matchingWorld = simSet ''m'' ''interchainSecurityModule'' ''ism'' ownedWorld"

text \<open>A configuration map with three chains.\<close>

definition threeChains :: "(chain \<times> unit) list" where
  "threeChains = [(''a'', ()), (''b'', ()), (''c'', ())]"

text \<open>A configuration map with an Ethereum chain and a chain of another protocol.\<close>

definition mixedChains :: "(chain \<times> unit) list" where
  "mixedChains = [(''a'', ()), (''solana'', ()), (''c'', ())]"


text \<open>
  A world with an initialized mailbox \<open>mb\<close> owned by \<open>deployer\<close>, given by its default
  module, default hook and required hook.
\<close>

definition mailboxWorld :: "address \<Rightarrow> address \<Rightarrow> address \<Rightarrow> sim" where
  "mailboxWorld ism dh rh =
     (simSet ''mb'' ''owner'' ''deployer''
       (simSet ''mb'' ''defaultIsm'' ism
         (simSet ''mb'' ''defaultHook'' dh
           (simSet ''mb'' ''requiredHook'' rh sim0))))
     \<lparr>deployedCode := [''mb''], initialized := [''mb'']\<rparr>"

text \<open>
  A world left behind by an earlier deployment whose mailbox settings are out of date:
  the proxy admin \<open>pa\<close>, the proxied mailbox \<open>mb\<close> and the validator announce \<open>va\<close>
  belong to \<open>deployer\<close>. The state \<open>seededState\<close> has the ledger of that deployment.
\<close>

definition staleWorld :: sim where
  "staleWorld =
     (simSet ''mb'' ''admin'' ''pa''
       (simSet ''pa'' ''owner'' ''deployer''
         (simSet ''va'' ''owner'' ''deployer''
           (mailboxWorld ''oldIsm'' ''oldHook'' ''oldRequired''))))
     \<lparr>deployedCode := [''pa'', ''impl'', ''mb'', ''va'']\<rparr>"

definition seededState :: "'w \<Rightarrow> 'w dstate" where
  "seededState w =
     (state0 w)\<lparr>cachedAddresses :=
        [''eth'' \<mapsto> [''proxyAdmin'' \<mapsto> ''pa'', ''mailbox'' \<mapsto> ''mb'',
                     ''validatorAnnounce'' \<mapsto> ''va'']]\<rparr>"




section \<open>Basic facts about sequencing\<close>

lemmas monad_defs = returnM_def throwM_def bindM_def catchM_def readM_def callM_def

lemma bindM_Inr: "m s = (Inr x, s') \<Longrightarrow> bindM m f s = f x s'"
  by (simp add: bindM_def)

lemma bindM_Inl: "m s = (Inl e, s') \<Longrightarrow> bindM m f s = (Inl e, s')"
  by (simp add: bindM_def)

lemma readM_Inr: "f (world s) = Inr x \<Longrightarrow> readM f s = (Inr x, s)"
  by (simp add: readM_def)

lemma callM_result:
  "f (world s) = (r, w') \<Longrightarrow> callM ev f s = (r, s\<lparr>world := w', trace := trace s @ [ev]\<rparr>)"
  by (simp add: callM_def)

lemma simEnv_fields:
  "chainTimeoutMs (simEnv sg) = 600000"
  "recoverVerificationInputs (simEnv sg) = False"
  "duration (simEnv sg) = (\<lambda>_. 1000)"
  "getChainMetadata (simEnv sg) = (\<lambda>c. Inr (if c = ''solana'' then Sealevel else Ethereum))"
  "intersect (simEnv sg) = (\<lambda>cs _. Inr cs)"
  "tryGetExplorerAddressUrl (simEnv sg) = (\<lambda>_ _. Inr None)"
  "getSignerAddress (simEnv sg) = (\<lambda>_ _. Inr sg)"
  "getBlockNumber (simEnv sg) = (\<lambda>_ w. Inr (length (deployedCode w)))"
  "getCode (simEnv sg) = (\<lambda>_ a w. Inr (if a \<in> set (deployedCode w) then ''0x60'' else ''0x''))"
  "getDomainId (simEnv sg) = (\<lambda>_. 1)"
  "callStatic (simEnv sg) = (\<lambda>_ a m w. Inr (slot w a m))"
  "sendTransaction (simEnv sg) = (\<lambda>_. simTx sg)"
  "handleTx (simEnv sg) = (\<lambda>_. simTx sg)"
  "handleDeploy (simEnv sg) = (\<lambda>_. simDeploy sg)"
  "isProxyAt (simEnv sg) = (\<lambda>_ a w. Inr (slot w a ''admin'' \<noteq> []))"
  "proxyAdmin (simEnv sg) = (\<lambda>_ a w. Inr (slot w a ''admin''))"
  "proxyImplementation (simEnv sg) = (\<lambda>_ a w. Inr (slot w a ''implementation''))"
  "moduleMatchesConfig (simEnv sg) =
     (\<lambda>_ a cfg w. Inr (case cfg of IsmAddress b \<Rightarrow> a = b | _ \<Rightarrow> a = ''ism''))"
  "ismFactory (simEnv sg) =
     Some (\<lambda>_ cfg _ w. (Inr (case cfg of IsmAddress b \<Rightarrow> b | _ \<Rightarrow> ''ism''), w))"
  "deployedIsms (simEnv sg) = (\<lambda>_ _. None)"
  "verifyContract (simEnv sg) = (\<lambda>_ _ w. (Inr (), w))"
  "hookDeployContracts (simEnv sg) =
     (\<lambda>_ cfg _ w. (Inr [(hookType cfg, ''hook-'' @ hookType cfg)], w))"
  "hookDeployedContracts (simEnv sg) = (\<lambda>_ _. None)"
  "hookVerificationInputs (simEnv sg) = (\<lambda>_ _. None)"
  "testRecipientDeployContracts (simEnv sg) =
     (\<lambda>_ _ w. (Inr [(''testRecipient'', ''tr'')],
                if slot w ''tr'' ''owner'' = [] then simSet ''tr'' ''owner'' sg w else w))"
  by (simp_all add: simEnv_def)

lemmas engine_defs =
  addVerificationArtifacts_def addDeployedContracts_def runIf_def runIfOwner_def runIfAdmin_def
  setIsmIfOwner_def configureIsm_def configureHook_def configureClient_def writeCache_def
  readCache_def proxyConstructorArgs_def buildVerificationInput_def
  recoverVerificationArtifacts_def deployContractFromFactory_def deployContractWithName_def
  deployContract_def changeAdmin_def upgradeAndInitialize_def deployProxy_def
  deployTimelock_def deployProxiedContract_def
  transferOwnershipOfContracts_def setStartingBlockNumber_def runWithTimeout_def
  deployChain_def deploy_def deployHook_def deployIsm_def deployTestRecipient_def
  deployValidatorAnnounce_def cacheInterchainSecurityModule_def rethrown_def
  reconcileMailbox_def initializeMailbox_def deployMailbox_def deployContracts_def
  eqAddress_def AddressZero_def spread_def typeError_def

lemmas sim_defs = simEnv_fields sim0_def simSet_def getterOf_def simTx_def simDeploy_def
  state0_def simConfig_def failingOn_def ownedWorld_def

section \<open>Authority resolution\<close>

lemma runIf_mismatch:
  "getSignerAddress env chain (world s) = Inr signer \<Longrightarrow> \<not> eqAddress addr signer \<Longrightarrow>
   runIf env chain addr fn s = (Inr None, s)"
  by (simp add: runIf_def bindM_def readM_def returnM_def)

lemma runIf_match:
  "getSignerAddress env chain (world s) = Inr signer \<Longrightarrow> eqAddress addr signer \<Longrightarrow>
   runIf env chain addr fn s = (map_sum id Some (fst (fn s)), snd (fn s))"
  by (simp add: runIf_def bindM_def readM_def returnM_def split: prod.splits sum.splits)

lemma runIfOwner_mismatch:
  "getSignerAddress env chain (world s) = Inr signer \<Longrightarrow>
   callStatic env chain ownable ''owner'' (world s) = Inr ownr \<Longrightarrow>
   \<not> eqAddress ownr signer \<Longrightarrow>
   runIfOwner env chain ownable fn s = (Inr None, s)"
  by (simp add: runIfOwner_def bindM_Inr readM_Inr runIf_mismatch)

lemma runIfOwner_match:
  "getSignerAddress env chain (world s) = Inr signer \<Longrightarrow>
   callStatic env chain ownable ''owner'' (world s) = Inr ownr \<Longrightarrow>
   eqAddress ownr signer \<Longrightarrow>
   runIfOwner env chain ownable fn s = (map_sum id Some (fst (fn s)), snd (fn s))"
  by (simp add: runIfOwner_def bindM_Inr readM_Inr runIf_match)




lemma configureHook_mismatch:
  "getSignerAddress env chain (world s) = Inr signer \<Longrightarrow>
   callStatic env chain contract ''owner'' (world s) = Inr ownr \<Longrightarrow>
   \<not> eqAddress ownr signer \<Longrightarrow>
   getHook contract (world s) = Inr configuredHook \<Longrightarrow>
   \<not> eqAddress targetHook configuredHook \<Longrightarrow>
   configureHook env chain contract targetHook getHook setHook s =
     addDeployedContracts chain (Some [(''customHook'', targetHook)]) None s"
  by (simp add: configureHook_def bindM_Inr readM_Inr runIfOwner_mismatch)

lemma configureHook_same:
  "getHook contract (world s) = Inr configuredHook \<Longrightarrow>
   eqAddress targetHook configuredHook \<Longrightarrow>
   configureHook env chain contract targetHook getHook setHook s = (Inr (), s)"
  by (simp add: configureHook_def bindM_Inr readM_Inr returnM_def)
















section \<open>Post-write verification\<close>

lemma setIsmIfOwner_post_write:
  assumes "getSignerAddress env chain (world s) = Inr signer"
    and "callStatic env chain contract ''owner'' (world s) = Inr ownr"
    and "eqAddress ownr signer"
    and "sendTransaction env chain (setIsm contract target) (world s) = (Inr r, w')"
    and "getIsm contract w' = Inr actual"
    and "\<not> eqAddress target actual"
  shows "setIsmIfOwner env chain contract target getIsm setIsm s =
           (Inl (Error (''Set ISM failed on '' @ chain) None),
            s\<lparr>world := w', trace := trace s @ [SendTransaction chain (setIsm contract target)]\<rparr>)"
  using assms
  by (simp add: setIsmIfOwner_def runIfOwner_match bindM_def callM_def readM_def throwM_def)

lemma configureHook_post_write:
  assumes "getSignerAddress env chain (world s) = Inr signer"
    and "callStatic env chain contract ''owner'' (world s) = Inr ownr"
    and "eqAddress ownr signer"
    and "getHook contract (world s) = Inr configuredHook"
    and "\<not> eqAddress targetHook configuredHook"
    and "sendTransaction env chain (setHook contract targetHook) (world s) = (Inr r, w')"
    and "getHook contract w' = Inr actualHook"
    and "\<not> eqAddress targetHook actualHook"
  shows "configureHook env chain contract targetHook getHook setHook s =
           (Inl (Error (''Set hook failed on '' @ chain @ '', wanted '' @ targetHook
                          @ '', got '' @ actualHook) None),
            s\<lparr>world := w',
              trace := trace s @ [SendTransaction chain (setHook contract targetHook)]\<rparr>)"
  using assms
  by (simp add: configureHook_def runIfOwner_match bindM_def callM_def readM_def throwM_def)

lemma configureIsm_structural_post_write:
  assumes "getIsm contract (world s) = Inr configuredIsm"
    and "\<forall>a. config \<noteq> IsmAddress a"
    and "ismFactory env = Some factoryDeploy"
    and "moduleMatchesConfig env chain configuredIsm config (world s) = Inr False"
    and "factoryDeploy chain config None (world s) = (Inr target, w1)"
    and "getSignerAddress env chain w1 = Inr signer"
    and "callStatic env chain contract ''owner'' w1 = Inr ownr"
    and "eqAddress ownr signer"
    and "sendTransaction env chain (setIsm contract target) w1 = (Inr r, w')"
    and "getIsm contract w' = Inr actual"
    and "\<not> eqAddress target actual"
  shows "fst (configureIsm env chain contract config getIsm setIsm s) =
           Inl (Error (''Set ISM failed on '' @ chain) None)"
proof -
  let ?s1 = "s\<lparr>world := w1, trace := trace s @ [IsmFactoryDeploy chain config]\<rparr>"
  have "setIsmIfOwner env chain contract target getIsm setIsm ?s1 =
           (Inl (Error (''Set ISM failed on '' @ chain) None),
            ?s1\<lparr>world := w', trace := trace ?s1 @ [SendTransaction chain (setIsm contract target)]\<rparr>)"
    using assms by (intro setIsmIfOwner_post_write) simp_all
  then show ?thesis
    using assms
    by (cases config) (simp_all add: configureIsm_def bindM_Inr readM_Inr callM_result)
qed


text \<open>
  Claim C3. When the signer is the owner, the current value differs from the target and
  the set transaction is included, the value is read again; if it is not the target,
  \<^verbatim>\<open>configureIsm\<close> (for a literal and for a structural specification) and
  \<^verbatim>\<open>configureHook\<close> throw, with the transaction recorded in the trace.
\<close>

theorem post_write_mismatch_throws:
  "(getSignerAddress env chain (world s) = Inr signer \<and>
    callStatic env chain contract ''owner'' (world s) = Inr ownr \<and> eqAddress ownr signer \<and>
    getIsm contract (world s) = Inr configuredIsm \<and> \<not> eqAddress configuredIsm target \<and>
    sendTransaction env chain (setIsm contract target) (world s) = (Inr r, w') \<and>
    getIsm contract w' = Inr actual \<and> \<not> eqAddress target actual \<longrightarrow>
      configureIsm env chain contract (IsmAddress target) getIsm setIsm s =
        (Inl (Error (''Set ISM failed on '' @ chain) None),
         s\<lparr>world := w', trace := trace s @ [SendTransaction chain (setIsm contract target)]\<rparr>)) \<and>
   (getIsm contract (world s) = Inr configuredIsm \<and> (\<forall>a. config \<noteq> IsmAddress a) \<and>
    ismFactory env = Some factoryDeploy \<and>
    moduleMatchesConfig env chain configuredIsm config (world s) = Inr False \<and>
    factoryDeploy chain config None (world s) = (Inr target, wd) \<and>
    getSignerAddress env chain wd = Inr signer \<and>
    callStatic env chain contract ''owner'' wd = Inr ownr \<and> eqAddress ownr signer \<and>
    sendTransaction env chain (setIsm contract target) wd = (Inr r, w') \<and>
    getIsm contract w' = Inr actual \<and> \<not> eqAddress target actual \<longrightarrow>
      fst (configureIsm env chain contract config getIsm setIsm s) =
        Inl (Error (''Set ISM failed on '' @ chain) None)) \<and>
   (getSignerAddress env chain (world s) = Inr signer \<and>
    callStatic env chain contract ''owner'' (world s) = Inr ownr \<and> eqAddress ownr signer \<and>
    getHook contract (world s) = Inr configuredHook \<and> \<not> eqAddress targetHook configuredHook \<and>
    sendTransaction env chain (setHook contract targetHook) (world s) = (Inr r, w') \<and>
    getHook contract w' = Inr actualHook \<and> \<not> eqAddress targetHook actualHook \<longrightarrow>
      configureHook env chain contract targetHook getHook setHook s =
        (Inl (Error (''Set hook failed on '' @ chain @ '', wanted '' @ targetHook
                       @ '', got '' @ actualHook) None),
         s\<lparr>world := w',
           trace := trace s @ [SendTransaction chain (setHook contract targetHook)]\<rparr>))"
proof (intro conjI impI)
  assume a: "getSignerAddress env chain (world s) = Inr signer \<and>
    callStatic env chain contract ''owner'' (world s) = Inr ownr \<and> eqAddress ownr signer \<and>
    getIsm contract (world s) = Inr configuredIsm \<and> \<not> eqAddress configuredIsm target \<and>
    sendTransaction env chain (setIsm contract target) (world s) = (Inr r, w') \<and>
    getIsm contract w' = Inr actual \<and> \<not> eqAddress target actual"
  then show "configureIsm env chain contract (IsmAddress target) getIsm setIsm s =
        (Inl (Error (''Set ISM failed on '' @ chain) None),
         s\<lparr>world := w', trace := trace s @ [SendTransaction chain (setIsm contract target)]\<rparr>)"
    by (simp add: configureIsm_def bindM_Inr readM_Inr setIsmIfOwner_post_write)
next
  assume "getIsm contract (world s) = Inr configuredIsm \<and> (\<forall>a. config \<noteq> IsmAddress a) \<and>
    ismFactory env = Some factoryDeploy \<and>
    moduleMatchesConfig env chain configuredIsm config (world s) = Inr False \<and>
    factoryDeploy chain config None (world s) = (Inr target, wd) \<and>
    getSignerAddress env chain wd = Inr signer \<and>
    callStatic env chain contract ''owner'' wd = Inr ownr \<and> eqAddress ownr signer \<and>
    sendTransaction env chain (setIsm contract target) wd = (Inr r, w') \<and>
    getIsm contract w' = Inr actual \<and> \<not> eqAddress target actual"
  then show "fst (configureIsm env chain contract config getIsm setIsm s) =
        Inl (Error (''Set ISM failed on '' @ chain) None)"
    by (intro configureIsm_structural_post_write) blast+
next
  assume "getSignerAddress env chain (world s) = Inr signer \<and>
    callStatic env chain contract ''owner'' (world s) = Inr ownr \<and> eqAddress ownr signer \<and>
    getHook contract (world s) = Inr configuredHook \<and> \<not> eqAddress targetHook configuredHook \<and>
    sendTransaction env chain (setHook contract targetHook) (world s) = (Inr r, w') \<and>
    getHook contract w' = Inr actualHook \<and> \<not> eqAddress targetHook actualHook"
  then show "configureHook env chain contract targetHook getHook setHook s =
        (Inl (Error (''Set hook failed on '' @ chain @ '', wanted '' @ targetHook
                       @ '', got '' @ actualHook) None),
         s\<lparr>world := w',
           trace := trace s @ [SendTransaction chain (setHook contract targetHook)]\<rparr>)"
    by (intro configureHook_post_write) blast+
qed

lemma deafEnv_fields:
  "getSignerAddress (deafEnv sg) = (\<lambda>_ _. Inr sg)"
  "callStatic (deafEnv sg) = (\<lambda>_ a m w. Inr (slot w a m))"
  "sendTransaction (deafEnv sg) = (\<lambda>_ _ w. (Inr ''receipt'', w))"
  "moduleMatchesConfig (deafEnv sg) =
     (\<lambda>_ a cfg w. Inr (case cfg of IsmAddress b \<Rightarrow> a = b | _ \<Rightarrow> a = ''ism''))"
  "ismFactory (deafEnv sg) =
     Some (\<lambda>_ cfg _ w. (Inr (case cfg of IsmAddress b \<Rightarrow> b | _ \<Rightarrow> ''ism''), w))"
  by (simp_all add: deafEnv_def simEnv_def)

theorem post_write_mismatch_throws_witness:
  "configureIsm (deafEnv ''deployer'') ''eth'' ''m'' (IsmAddress ''newIsm'')
     (\<lambda>c. callStatic (deafEnv ''deployer'') ''eth'' c ''interchainSecurityModule'')
     (\<lambda>c a. Tx c ''setInterchainSecurityModule'' [ArgAddress a]) (state0 ownedWorld) =
     (Inl (Error ''Set ISM failed on eth'' None),
      (state0 ownedWorld)\<lparr>trace := [SendTransaction ''eth''
          (Tx ''m'' ''setInterchainSecurityModule'' [ArgAddress ''newIsm''])]\<rparr>) \<and>
   fst (configureIsm (deafEnv ''deployer'') ''eth'' ''m'' (MultisigIsm [''v1'', ''v2''] 2)
     (\<lambda>c. callStatic (deafEnv ''deployer'') ''eth'' c ''interchainSecurityModule'')
     (\<lambda>c a. Tx c ''setInterchainSecurityModule'' [ArgAddress a]) (state0 ownedWorld)) =
     Inl (Error ''Set ISM failed on eth'' None) \<and>
   configureHook (deafEnv ''deployer'') ''eth'' ''m'' ''newHook''
     (\<lambda>c. callStatic (deafEnv ''deployer'') ''eth'' c ''hook'')
     (\<lambda>c a. Tx c ''setHook'' [ArgAddress a]) (state0 ownedWorld) =
     (Inl (Error ''Set hook failed on eth, wanted newHook, got oldHook'' None),
      (state0 ownedWorld)\<lparr>trace := [SendTransaction ''eth''
          (Tx ''m'' ''setHook'' [ArgAddress ''newHook''])]\<rparr>)"
  using post_write_mismatch_throws [where env = "deafEnv ''deployer''" and chain = "''eth''"
      and s = "state0 ownedWorld" and signer = "''deployer''" and contract = "''m''"
      and ownr = "''deployer''" and configuredIsm = "''oldIsm''" and target = "''newIsm''"
      and getIsm = "\<lambda>c. callStatic (deafEnv ''deployer'') ''eth'' c ''interchainSecurityModule''"
      and setIsm = "\<lambda>c a. Tx c ''setInterchainSecurityModule'' [ArgAddress a]"
      and r = "''receipt''" and w' = ownedWorld and actual = "''oldIsm''"
      and config = "IsmAddress ''newIsm''" and factoryDeploy = "\<lambda>_ _ _ w. (Inr [], w)"
      and wd = ownedWorld
      and getHook = "\<lambda>c. callStatic (deafEnv ''deployer'') ''eth'' c ''hook''"
      and setHook = "\<lambda>c a. Tx c ''setHook'' [ArgAddress a]" and targetHook = "''newHook''"
      and configuredHook = "''oldHook''" and actualHook = "''oldHook''"]
    post_write_mismatch_throws [where env = "deafEnv ''deployer''" and chain = "''eth''"
      and s = "state0 ownedWorld" and signer = "''deployer''" and contract = "''m''"
      and ownr = "''deployer''" and configuredIsm = "''oldIsm''" and target = "''ism''"
      and getIsm = "\<lambda>c. callStatic (deafEnv ''deployer'') ''eth'' c ''interchainSecurityModule''"
      and setIsm = "\<lambda>c a. Tx c ''setInterchainSecurityModule'' [ArgAddress a]"
      and r = "''receipt''" and w' = ownedWorld and actual = "''oldIsm''"
      and config = "MultisigIsm [''v1'', ''v2''] 2"
      and factoryDeploy = "\<lambda>_ cfg _ w. (Inr (case cfg of IsmAddress b \<Rightarrow> b | _ \<Rightarrow> ''ism''), w)"
      and wd = ownedWorld
      and getHook = "\<lambda>c. callStatic (deafEnv ''deployer'') ''eth'' c ''hook''"
      and setHook = "\<lambda>c a. Tx c ''setHook'' [ArgAddress a]" and targetHook = "''newHook''"
      and configuredHook = "''oldHook''" and actualHook = "''oldHook''"]
  by (simp add: deafEnv_fields ownedWorld_def simSet_def sim0_def state0_def eqAddress_def)

section \<open>The custom hook artifact\<close>

lemma map_of_spread_single: "map_of (spread old [(k, v)]) k = Some v"
  by (simp add: spread_def update_conv')

text \<open>
  Claim C9. With the configured hook read: when it equals the target, \<^verbatim>\<open>configureHook\<close>
  changes nothing; when it differs and the signer is not the owner, nothing is sent and
  the target hook is recorded under \<^verbatim>\<open>customHook\<close> in the deployed contracts of the chain.
\<close>

theorem configureHook_records_customHook:
  assumes "getHook contract (world s) = Inr configuredHook"
  shows
    "(eqAddress targetHook configuredHook \<longrightarrow>
        configureHook env chain contract targetHook getHook setHook s = (Inr (), s)) \<and>
     (\<not> eqAddress targetHook configuredHook \<and>
      getSignerAddress env chain (world s) = Inr signer \<and>
      callStatic env chain contract ''owner'' (world s) = Inr ownr \<and>
      \<not> eqAddress ownr signer \<longrightarrow>
        configureHook env chain contract targetHook getHook setHook s =
          (Inr (), s\<lparr>deployedContracts := (deployedContracts s)
             (chain \<mapsto> spread (case deployedContracts s chain of None \<Rightarrow> [] | Some m \<Rightarrow> m)
                            [(''customHook'', targetHook)])\<rparr>) \<and>
        trace (snd (configureHook env chain contract targetHook getHook setHook s)) = trace s \<and>
        map_option (\<lambda>cs. map_of cs ''customHook'')
          (deployedContracts (snd (configureHook env chain contract targetHook getHook setHook s))
             chain) = Some (Some targetHook))"
  using assms
  by (auto simp: configureHook_same configureHook_mismatch addDeployedContracts_def
        map_of_spread_single)

theorem configureHook_records_customHook_witness:
  "configureHook (simEnv ''stranger'') ''eth'' ''m'' ''oldHook''
     (\<lambda>c. callStatic (simEnv ''stranger'') ''eth'' c ''hook'')
     (\<lambda>c a. Tx c ''setHook'' [ArgAddress a]) (state0 ownedWorld) = (Inr (), state0 ownedWorld) \<and>
   configureHook (simEnv ''stranger'') ''eth'' ''m'' ''newHook''
     (\<lambda>c. callStatic (simEnv ''stranger'') ''eth'' c ''hook'')
     (\<lambda>c a. Tx c ''setHook'' [ArgAddress a]) (state0 ownedWorld) =
     (Inr (), (state0 ownedWorld)\<lparr>deployedContracts :=
                 [''eth'' \<mapsto> [(''customHook'', ''newHook'')]]\<rparr>)"
  using configureHook_records_customHook [where env = "simEnv ''stranger''" and chain = "''eth''"
      and s = "state0 ownedWorld" and contract = "''m''" and configuredHook = "''oldHook''"
      and getHook = "\<lambda>c. callStatic (simEnv ''stranger'') ''eth'' c ''hook''"
      and setHook = "\<lambda>c a. Tx c ''setHook'' [ArgAddress a]" and targetHook = "''oldHook''"
      and signer = "''stranger''" and ownr = "''deployer''"]
    configureHook_records_customHook [where env = "simEnv ''stranger''" and chain = "''eth''"
      and s = "state0 ownedWorld" and contract = "''m''" and configuredHook = "''oldHook''"
      and getHook = "\<lambda>c. callStatic (simEnv ''stranger'') ''eth'' c ''hook''"
      and setHook = "\<lambda>c a. Tx c ''setHook'' [ArgAddress a]" and targetHook = "''newHook''"
      and signer = "''stranger''" and ownr = "''deployer''"]
  by (simp add: simEnv_fields ownedWorld_def simSet_def sim0_def state0_def eqAddress_def
        spread_def)

section \<open>Proxies\<close>

lemma deployProxy_already_proxied:
  "isProxyAt env chain impl (world s) = Inr True \<Longrightarrow>
   deployProxy env chain impl admin ia s = (Inr impl, s)"
  by (simp add: deployProxy_def bindM_Inr readM_Inr returnM_def)

lemma deployProxiedContract_binds:
  "deployProxiedContract env chain key nm admin cargs ia s = (Inr p, s') \<Longrightarrow>
   \<exists>m. cachedAddresses s' chain = Some m \<and> m nm = Some p"
  by (auto simp: deployProxiedContract_def bindM_def writeCache_def returnM_def
        split: prod.splits sum.splits)

lemma writeCache_same:
  "cachedAddresses s chain = Some m \<Longrightarrow> m nm = Some p \<Longrightarrow>
   writeCache chain nm p s = (Inr (), s)"
proof -
  assume a: "cachedAddresses s chain = Some m" "m nm = Some p"
  then have "m(nm \<mapsto> p) = m" by (simp add: fun_upd_idem)
  with a have "(cachedAddresses s)(chain \<mapsto> m(nm \<mapsto> p)) = cachedAddresses s"
    by (simp add: fun_upd_idem)
  with a show ?thesis by (simp add: writeCache_def)
qed

lemma deployProxiedContract_resumed:
  assumes "cachedAddresses s chain = Some m" and "m nm = Some p"
    and "p \<noteq> []" and "p \<noteq> AddressZero"
    and "isProxyAt env chain p (world s) = Inr True"
    and "\<not> recoverVerificationInputs env"
  shows "deployProxiedContract env chain key nm admin cargs ia s = (Inr p, s)"
proof -
  have rc: "readCache chain nm s = Some p"
    using assms by (simp add: readCache_def)
  have "deployContractFromFactory env chain key nm cargs ia True s = (Inr p, s)"
    using rc assms(6) by (simp add: deployContractFromFactory_def bindM_def returnM_def)
  then have "deployContractWithName env chain key nm cargs ia True s = (Inr p, s)"
    using assms(1,2)
    by (simp add: deployContractWithName_def bindM_Inr writeCache_same returnM_def)
  then show ?thesis
    using assms
    by (simp add: deployProxiedContract_def bindM_Inr deployProxy_already_proxied
          writeCache_same returnM_def)
qed

text \<open>
  Claim C5. \<^verbatim>\<open>deployProxy\<close> first asks whether the implementation address is a proxy and,
  if it is, returns it and leaves the state as it was. Hence when
  \<^verbatim>\<open>deployProxiedContract\<close> has returned a non-zero address that the chain reports as a
  proxy, running it again returns the same address without any deployment: the state,
  trace included, does not change.
\<close>

theorem no_double_proxy:
  "(isProxyAt env chain impl (world s) = Inr True \<longrightarrow>
      deployProxy env chain impl admin ia s = (Inr impl, s)) \<and>
   (deployProxiedContract env chain key nm admin cargs ia s = (Inr p, s') \<and>
    p \<noteq> [] \<and> p \<noteq> AddressZero \<and> isProxyAt env chain p (world s') = Inr True \<and>
    \<not> recoverVerificationInputs env \<longrightarrow>
      deployProxiedContract env chain key nm admin cargs ia s' = (Inr p, s'))"
proof (intro conjI impI)
  assume "isProxyAt env chain impl (world s) = Inr True"
  then show "deployProxy env chain impl admin ia s = (Inr impl, s)"
    by (rule deployProxy_already_proxied)
next
  assume a: "deployProxiedContract env chain key nm admin cargs ia s = (Inr p, s') \<and>
    p \<noteq> [] \<and> p \<noteq> AddressZero \<and> isProxyAt env chain p (world s') = Inr True \<and>
    \<not> recoverVerificationInputs env"
  then obtain m where "cachedAddresses s' chain = Some m" "m nm = Some p"
    using deployProxiedContract_binds by blast
  with a show "deployProxiedContract env chain key nm admin cargs ia s' = (Inr p, s')"
    by (intro deployProxiedContract_resumed [where m = m]) simp_all
qed

lemma first_proxied:
  "fst (deployProxiedContract (simEnv ''deployer'') ''eth'' ''mailbox'' ''mailbox'' ''admin''
        [ArgNumber 1] None (state0 sim0)) = Inr ''cc''"
  "slot (world (snd (deployProxiedContract (simEnv ''deployer'') ''eth'' ''mailbox'' ''mailbox'' ''admin''
        [ArgNumber 1] None (state0 sim0)))) ''cc'' ''admin'' = ''admin''"
  by (simp_all add: monad_defs engine_defs sim_defs Let_def)

theorem no_double_proxy_witness:
  "deployProxiedContract (simEnv ''deployer'') ''eth'' ''mailbox'' ''mailbox'' ''admin''
     [ArgNumber 1] None
     (snd (deployProxiedContract (simEnv ''deployer'') ''eth'' ''mailbox'' ''mailbox'' ''admin''
        [ArgNumber 1] None (state0 sim0))) =
   (Inr ''cc'',
    snd (deployProxiedContract (simEnv ''deployer'') ''eth'' ''mailbox'' ''mailbox'' ''admin''
        [ArgNumber 1] None (state0 sim0)))"
  using no_double_proxy [where env = "simEnv ''deployer''" and chain = "''eth''"
      and key = "''mailbox''" and nm = "''mailbox''" and admin = "''admin''"
      and cargs = "[ArgNumber 1]" and ia = None and s = "state0 sim0" and p = "''cc''"
      and s' = "snd (deployProxiedContract (simEnv ''deployer'') ''eth'' ''mailbox'' ''mailbox'' ''admin''
        [ArgNumber 1] None (state0 sim0))"
      and impl = "''cc''"]
    first_proxied
  by (simp add: prod_eq_iff simEnv_fields AddressZero_def)

section \<open>Structural modules\<close>

text \<open>
  Claim C8. On a contract whose configured module already satisfies a structural
  specification, \<^verbatim>\<open>configureIsm\<close> sends no set-module transaction but still asks the ISM
  factory to deploy a module for the specification.
\<close>

theorem configureIsm_deploys_despite_match:
  "callStatic (simEnv ''deployer'') ''eth'' ''m'' ''interchainSecurityModule'' matchingWorld
     = Inr ''ism'' \<and>
   moduleMatchesConfig (simEnv ''deployer'') ''eth'' ''ism'' (MultisigIsm [''v1'', ''v2''] 2)
     matchingWorld = Inr True \<and>
   configureIsm (simEnv ''deployer'') ''eth'' ''m'' (MultisigIsm [''v1'', ''v2''] 2)
     (\<lambda>c. callStatic (simEnv ''deployer'') ''eth'' c ''interchainSecurityModule'')
     (\<lambda>c a. Tx c ''setInterchainSecurityModule'' [ArgAddress a]) (state0 matchingWorld) =
   (Inr (), (state0 matchingWorld)
       \<lparr>trace := [IsmFactoryDeploy ''eth'' (MultisigIsm [''v1'', ''v2''] 2)]\<rparr>)"
  by (simp add: monad_defs engine_defs sim_defs matchingWorld_def)

section \<open>The loop over the target chains\<close>

lemma deployChains_append:
  "deployChains env dc cm (xs @ ys) s =
     bindM (deployChains env dc cm xs) (\<lambda>_. deployChains env dc cm ys) s"
  by (induction xs arbitrary: s)
     (auto simp: bindM_def returnM_def split: prod.splits sum.splits)

lemma deployChain_throws:
  assumes "tryGetExplorerAddressUrl env chain (world s) = Inr url"
    and "getSignerAddress env chain (world s) = Inr signer"
    and "getBlockNumber env chain (world s) = Inr n"
    and "\<not> chainTimeoutMs env < duration env chain"
    and "dc chain (map_of cm chain)
           (s\<lparr>startingBlockNumbers := (startingBlockNumbers s)(chain \<mapsto> n)\<rparr>) = (Inl e, s')"
  shows "deployChain env dc cm chain s = (Inl e, s')"
  using assms
  by (simp add: deployChain_def bindM_def readM_def setStartingBlockNumber_def
        runWithTimeout_def)

text \<open>
  Claim C1, as amended. When the deployment of a target chain throws an error that is not
  the timeout, after the chains before it were deployed, \<^verbatim>\<open>deploy\<close> throws that error
  and stops: the state it leaves is the one in which that chain's \<^verbatim>\<open>deployContracts\<close>
  threw, so no later chain is attempted and what the earlier chains recorded stays in the
  deployer, but no map of outcomes is returned.
\<close>

theorem deploy_stops_at_first_failure:
  assumes "ethereumConfigChains env (map fst configMap) = Inr eth"
    and "intersect env eth True = Inr (before @ chain # after)"
    and "deployChains env dc configMap before s = (Inr (), sb)"
    and "tryGetExplorerAddressUrl env chain (world sb) = Inr url"
    and "getSignerAddress env chain (world sb) = Inr signer"
    and "getBlockNumber env chain (world sb) = Inr n"
    and "\<not> chainTimeoutMs env < duration env chain"
    and "dc chain (map_of configMap chain)
           (sb\<lparr>startingBlockNumbers := (startingBlockNumbers sb)(chain \<mapsto> n)\<rparr>) = (Inl e, s')"
  shows "deploy env dc configMap s = (Inl e, s')"
proof -
  have "deployChain env dc configMap chain sb = (Inl e, s')"
    using assms(4-8) by (rule deployChain_throws)
  then have "deployChains env dc configMap (chain # after) sb = (Inl e, s')"
    by (simp add: bindM_Inl)
  then have "deployChains env dc configMap (before @ chain # after) s = (Inl e, s')"
    using assms(3) by (simp add: deployChains_append bindM_Inr)
  then show ?thesis
    using assms(1,2) by (simp add: deploy_def bindM_Inl)
qed

lemma run_a:
  "deployChains (simEnv ''deployer'') (failingOn ''b'' (Error ''boom'' None)) threeChains [''a'']
     (state0 sim0) =
   (Inr (), (state0 sim0)\<lparr>deployedContracts := [''a'' \<mapsto> [(''mailbox'', ''mailbox-a'')]],
                          startingBlockNumbers := [''a'' \<mapsto> 0]\<rparr>)"
  by (simp add: monad_defs engine_defs sim_defs threeChains_def)

text \<open>
  Claim C1, as stated, fails: with three target chains of which the second throws,
  \<^verbatim>\<open>deploy\<close> throws and the third chain is never started.
\<close>

theorem deploy_aborts_on_second_chain:
  "fst (deploy (simEnv ''deployer'') (failingOn ''b'' (Error ''boom'' None)) threeChains
          (state0 sim0)) = Inl (Error ''boom'' None) \<and>
   startingBlockNumbers
     (snd (deploy (simEnv ''deployer'') (failingOn ''b'' (Error ''boom'' None)) threeChains
          (state0 sim0))) ''c'' = None \<and>
   deployedContracts
     (snd (deploy (simEnv ''deployer'') (failingOn ''b'' (Error ''boom'' None)) threeChains
          (state0 sim0))) ''c'' = None"
  by (simp add: monad_defs engine_defs sim_defs threeChains_def)

theorem deploy_stops_at_first_failure_witness:
  "deploy (simEnv ''deployer'') (failingOn ''b'' (Error ''boom'' None)) threeChains
     (state0 sim0) =
   (Inl (Error ''boom'' None),
    (state0 sim0)\<lparr>deployedContracts := [''a'' \<mapsto> [(''mailbox'', ''mailbox-a'')]],
                  startingBlockNumbers := [''a'' \<mapsto> 0, ''b'' \<mapsto> 0]\<rparr>)"
  using deploy_stops_at_first_failure [where env = "simEnv ''deployer''"
      and dc = "failingOn ''b'' (Error ''boom'' None)" and configMap = threeChains
      and eth = "[''a'', ''b'', ''c'']" and before = "[''a'']" and chain = "''b''"
      and after = "[''c'']" and s = "state0 sim0"
      and sb = "(state0 sim0)\<lparr>deployedContracts := [''a'' \<mapsto> [(''mailbox'', ''mailbox-a'')]],
                          startingBlockNumbers := [''a'' \<mapsto> 0]\<rparr>"
      and url = None and signer = "''deployer''" and n = 0 and e = "Error ''boom'' None"
      and s' = "(state0 sim0)\<lparr>deployedContracts := [''a'' \<mapsto> [(''mailbox'', ''mailbox-a'')]],
                  startingBlockNumbers := [''a'' \<mapsto> 0, ''b'' \<mapsto> 0]\<rparr>"]
    run_a
  by (simp add: simEnv_fields threeChains_def failingOn_def throwM_def state0_def sim0_def)

section \<open>The choice of the target chains\<close>

lemma ethereumConfigChains_skip:
  "getChainMetadata env c = Inr p \<Longrightarrow> p \<noteq> Ethereum \<Longrightarrow>
   ethereumConfigChains env (c # ys) = ethereumConfigChains env ys"
  by (cases "ethereumConfigChains env ys") simp_all

lemma ethereumConfigChains_remove:
  "getChainMetadata env c = Inr p \<Longrightarrow> p \<noteq> Ethereum \<Longrightarrow>
   ethereumConfigChains env (xs @ c # ys) = ethereumConfigChains env (xs @ ys)"
proof (induction xs)
  case Nil
  then show ?case using ethereumConfigChains_skip [of env c p ys] by simp
next
  case (Cons x xs)
  then have IH: "ethereumConfigChains env (xs @ c # ys) = ethereumConfigChains env (xs @ ys)"
    by simp
  show ?case by (simp only: append_Cons ethereumConfigChains.simps IH)
qed

lemma ethereumConfigChains_set:
  "ethereumConfigChains env cs = Inr eth \<Longrightarrow>
   set eth = {c \<in> set cs. getChainMetadata env c = Inr Ethereum}"
proof (induction cs arbitrary: eth)
  case Nil
  then show ?case by simp
next
  case (Cons c cs)
  from Cons.prems obtain p r where
    p: "getChainMetadata env c = Inr p" and r: "ethereumConfigChains env cs = Inr r"
    and eth: "eth = (if p = Ethereum then c # r else r)"
    by (auto split: sum.splits)
  have "set r = {c \<in> set cs. getChainMetadata env c = Inr Ethereum}"
    using Cons.IH [OF r] .
  with p eth show ?case by auto
qed

lemma deployChain_cong:
  "map_of cm c = map_of cm' c \<Longrightarrow> dc c = dc' c \<Longrightarrow>
   deployChain env dc cm c = deployChain env dc' cm' c"
  by (simp add: deployChain_def)

lemma deployChains_cong:
  "\<forall>c \<in> set ts. map_of cm c = map_of cm' c \<and> dc c = dc' c \<Longrightarrow>
   deployChains env dc cm ts = deployChains env dc' cm' ts"
proof (induction ts)
  case Nil
  then show ?case by simp
next
  case (Cons c ts)
  then have "deployChain env dc cm c = deployChain env dc' cm' c"
    by (intro deployChain_cong) simp_all
  moreover have "deployChains env dc cm ts = deployChains env dc' cm' ts"
    using Cons by simp
  ultimately show ?case by simp
qed

lemma map_of_remove:
  "k \<noteq> c \<Longrightarrow> map_of (xs @ (c, v) # ys) k = map_of (xs @ ys) k"
  by (simp add: map_add_def split: option.splits)

text \<open>
  Claim C10. Let \<open>c\<close> be a configured chain whose protocol is not Ethereum, and let the
  provider's \<^verbatim>\<open>intersect\<close> return only members of the list it is given. Then \<open>c\<close> is not
  among the chains handed to \<^verbatim>\<open>intersect\<close> nor among the target chains, every target
  chain is a configured chain of protocol Ethereum, the run does not depend on what
  \<^verbatim>\<open>deployContracts\<close> would do on \<open>c\<close>, and the run is the same, in outcome and in state,
  as the run over the configuration map without \<open>c\<close>.
\<close>

theorem deploy_skips_other_protocols:
  assumes meta: "getChainMetadata env c = Inr p" and other: "p \<noteq> Ethereum"
    and eth: "ethereumConfigChains env (map fst (cm1 @ (c, cfg) # cm2)) = Inr eth"
    and sub: "\<And>ts. intersect env eth True = Inr ts \<Longrightarrow> set ts \<subseteq> set eth"
  shows
    "c \<notin> set eth \<and>
     (\<forall>ts. intersect env eth True = Inr ts \<longrightarrow>
        c \<notin> set ts \<and>
        (\<forall>t \<in> set ts. getChainMetadata env t = Inr Ethereum \<and>
                       t \<in> fst ` set (cm1 @ (c, cfg) # cm2))) \<and>
     ((\<forall>t. t \<noteq> c \<longrightarrow> dc t = dc' t) \<longrightarrow>
        deploy env dc (cm1 @ (c, cfg) # cm2) s = deploy env dc' (cm1 @ (c, cfg) # cm2) s) \<and>
     deploy env dc (cm1 @ (c, cfg) # cm2) s = deploy env dc (cm1 @ cm2) s"
proof -
  have seteth: "set eth = {t \<in> set (map fst (cm1 @ (c, cfg) # cm2)).
                           getChainMetadata env t = Inr Ethereum}"
    using eth by (rule ethereumConfigChains_set)
  then have notin: "c \<notin> set eth"
    using meta other by auto
  have eth': "ethereumConfigChains env (map fst (cm1 @ cm2)) = Inr eth"
    using ethereumConfigChains_remove [OF meta other, of "map fst cm1" "map fst cm2"] eth
    by simp
  have targets: "c \<notin> set ts \<and>
      (\<forall>t \<in> set ts. getChainMetadata env t = Inr Ethereum \<and>
                     t \<in> fst ` set (cm1 @ (c, cfg) # cm2))"
    if "intersect env eth True = Inr ts" for ts
    using sub [OF that] seteth notin by auto
  have indep: "deploy env dc (cm1 @ (c, cfg) # cm2) s = deploy env dc' (cm1 @ (c, cfg) # cm2) s"
    if agree: "\<forall>t. t \<noteq> c \<longrightarrow> dc t = dc' t"
  proof (cases "intersect env eth True")
    case (Inl e)
    with eth show ?thesis by (simp add: deploy_def)
  next
    case (Inr ts)
    then have "c \<notin> set ts" using targets by blast
    with agree have "deployChains env dc (cm1 @ (c, cfg) # cm2) ts =
        deployChains env dc' (cm1 @ (c, cfg) # cm2) ts"
      by (intro deployChains_cong) auto
    with eth Inr show ?thesis by (simp add: deploy_def bindM_def)
  qed
  have removal: "deploy env dc (cm1 @ (c, cfg) # cm2) s = deploy env dc (cm1 @ cm2) s"
  proof (cases "intersect env eth True")
    case (Inl e)
    with eth eth' show ?thesis by (simp add: deploy_def)
  next
    case (Inr ts)
    then have "c \<notin> set ts" using targets by blast
    then have "deployChains env dc (cm1 @ (c, cfg) # cm2) ts =
        deployChains env dc (cm1 @ cm2) ts"
      by (intro deployChains_cong) (auto simp: map_add_def split: option.splits)
    with eth eth' Inr show ?thesis by (simp add: deploy_def bindM_def)
  qed
  show ?thesis
    using notin targets indep removal by blast
qed


lemma mixed_eth:
  "ethereumConfigChains (simEnv ''deployer'') (map fst mixedChains) = Inr [''a'', ''c'']"
  by (simp add: simEnv_fields mixedChains_def)

theorem deploy_skips_other_protocols_witness:
  "getChainMetadata (simEnv ''deployer'') ''solana'' = Inr Sealevel \<and>
   deploy (simEnv ''deployer'') (failingOn ''solana'' (Error ''boom'' None)) mixedChains
     (state0 sim0) =
   deploy (simEnv ''deployer'') (failingOn ''solana'' (Error ''boom'' None))
     [(''a'', ()), (''c'', ())] (state0 sim0) \<and>
   fst (deploy (simEnv ''deployer'') (failingOn ''solana'' (Error ''boom'' None))
     [(''a'', ()), (''c'', ())] (state0 sim0)) \<noteq> Inl (Error ''boom'' None)"
proof -
  have sub: "\<And>ts. intersect (simEnv ''deployer'') [''a'', ''c''] True = Inr ts \<Longrightarrow>
      set ts \<subseteq> set [''a'', ''c'']"
    by (auto simp: simEnv_fields)
  have eth: "ethereumConfigChains (simEnv ''deployer'')
      (map fst ([(''a'', ())] @ (''solana'', ()) # [(''c'', ())])) = Inr [''a'', ''c'']"
    using mixed_eth by (simp add: mixedChains_def)
  have meta: "getChainMetadata (simEnv ''deployer'') ''solana'' = Inr Sealevel"
    by (simp add: simEnv_fields)
  have "deploy (simEnv ''deployer'') (failingOn ''solana'' (Error ''boom'' None))
           ([(''a'', ())] @ (''solana'', ()) # [(''c'', ())]) (state0 sim0) =
        deploy (simEnv ''deployer'') (failingOn ''solana'' (Error ''boom'' None))
           ([(''a'', ())] @ [(''c'', ())]) (state0 sim0)"
    using deploy_skips_other_protocols [OF meta _ eth sub, where dc = "failingOn ''solana'' (Error ''boom'' None)"
        and s = "state0 sim0"]
    by simp
  moreover have "fst (deploy (simEnv ''deployer'') (failingOn ''solana'' (Error ''boom'' None))
     [(''a'', ()), (''c'', ())] (state0 sim0)) \<noteq> Inl (Error ''boom'' None)"
    by (simp add: monad_defs engine_defs sim_defs)
  ultimately show ?thesis
    using meta by (simp add: mixedChains_def)
qed

section \<open>An initialized mailbox\<close>















section \<open>What the engine adds to the trace\<close>

lemma emits_returnM: "emits P (returnM x)"
  by (simp add: emits_def returnM_def)

lemma emits_throwM: "emits P (throwM e)"
  by (simp add: emits_def throwM_def)

lemma emits_readM: "emits P (readM f)"
  by (simp add: emits_def readM_def)

lemma emits_callM: "P ev \<Longrightarrow> emits P (callM ev f)"
  by (simp add: emits_def callM_def split: prod.splits)

lemma emits_bindM:
  assumes "emits P m" and "\<And>x. emits P (f x)"
  shows "emits P (bindM m f)"
  unfolding emits_def
proof
  fix s
  from assms(1) obtain evs where m: "trace (snd (m s)) = trace s @ evs" "\<forall>e \<in> set evs. P e"
    unfolding emits_def by blast
  show "\<exists>evs. trace (snd (bindM m f s)) = trace s @ evs \<and> (\<forall>e \<in> set evs. P e)"
  proof (cases "m s")
    case (Pair r s')
    show ?thesis
    proof (cases r)
      case (Inl e)
      with Pair m show ?thesis by (auto simp: bindM_def)
    next
      case (Inr x)
      from assms(2) [of x] obtain evs' where
        f: "trace (snd (f x s')) = trace s' @ evs'" "\<forall>e \<in> set evs'. P e"
        unfolding emits_def by blast
      with Pair Inr m have "trace (snd (bindM m f s)) = trace s @ (evs @ evs')"
        by (simp add: bindM_def)
      moreover have "\<forall>e \<in> set (evs @ evs'). P e" using m f by auto
      ultimately show ?thesis by blast
    qed
  qed
qed

lemma catchM_as_bindM:
  "catchM m h s = (case m s of (Inl e, s') \<Rightarrow> h e s' | (Inr x, s') \<Rightarrow> (Inr x, s'))"
  by (simp add: catchM_def)

lemma emits_catchM:
  assumes "emits P m" and "\<And>e. emits P (h e)"
  shows "emits P (catchM m h)"
  unfolding emits_def
proof
  fix s
  from assms(1) obtain evs where m: "trace (snd (m s)) = trace s @ evs" "\<forall>e \<in> set evs. P e"
    unfolding emits_def by blast
  show "\<exists>evs. trace (snd (catchM m h s)) = trace s @ evs \<and> (\<forall>e \<in> set evs. P e)"
  proof (cases "m s")
    case (Pair r s')
    show ?thesis
    proof (cases r)
      case (Inr x)
      with Pair m show ?thesis by (auto simp: catchM_def)
    next
      case (Inl e)
      from assms(2) [of e] obtain evs' where
        f: "trace (snd (h e s')) = trace s' @ evs'" "\<forall>e \<in> set evs'. P e"
        unfolding emits_def by blast
      with Pair Inl m have "trace (snd (catchM m h s)) = trace s @ (evs @ evs')"
        by (simp add: catchM_def)
      moreover have "\<forall>e \<in> set (evs @ evs'). P e" using m f by auto
      ultimately show ?thesis by blast
    qed
  qed
qed

lemma emits_state: "(\<And>s0. emits P (m s0)) \<Longrightarrow> emits P (\<lambda>s. m s s)"
  by (simp add: emits_def)

lemma emits_if: "emits P a \<Longrightarrow> emits P b \<Longrightarrow> emits P (if c then a else b)"
  by simp

lemma emits_case_option:
  "emits P a \<Longrightarrow> (\<And>y. emits P (b y)) \<Longrightarrow> emits P (case x of None \<Rightarrow> a | Some y \<Rightarrow> b y)"
  by (cases x) simp_all

lemma emits_weaken: "emits P m \<Longrightarrow> (\<And>e. P e \<Longrightarrow> Q e) \<Longrightarrow> emits Q m"
  unfolding emits_def by (meson)

lemma emits_addVerificationArtifacts: "emits P (addVerificationArtifacts chain as)"
  by (simp add: emits_def addVerificationArtifacts_def)

lemma emits_addDeployedContracts: "emits P (addDeployedContracts chain cs vis)"
  by (cases vis) (simp_all add: emits_def addDeployedContracts_def addVerificationArtifacts_def)

lemma emits_writeCache: "emits P (writeCache chain n a)"
  by (simp add: emits_def writeCache_def)

lemma emits_cacheInterchainSecurityModule: "emits P (cacheInterchainSecurityModule chain a)"
  by (simp add: emits_def cacheInterchainSecurityModule_def split: option.splits)

lemma emits_addDeployedContracts_state:
  "emits P (\<lambda>s. addDeployedContracts chain (f s) (g s) s)"
  unfolding emits_def
proof
  fix s
  show "\<exists>evs. trace (snd (addDeployedContracts chain (f s) (g s) s)) = trace s @ evs \<and>
      (\<forall>e \<in> set evs. P e)"
    by (cases "g s") (simp_all add: addDeployedContracts_def addVerificationArtifacts_def)
qed

lemmas emits_basic = emits_returnM emits_throwM emits_readM emits_bindM emits_catchM emits_if
  emits_case_option emits_addVerificationArtifacts emits_addDeployedContracts emits_writeCache
  emits_cacheInterchainSecurityModule

lemma emits_runIf: "emits P fn \<Longrightarrow> emits P (runIf env chain a fn)"
  unfolding runIf_def by (intro emits_basic)

lemma emits_runIfOwner: "emits P fn \<Longrightarrow> emits P (runIfOwner env chain c fn)"
  unfolding runIfOwner_def by (intro emits_basic emits_runIf)

lemma emits_configureHook:
  "P (SendTransaction chain (setHook c t)) \<Longrightarrow> emits P (configureHook env chain c t getHook setHook)"
  unfolding configureHook_def
  by (intro emits_basic emits_runIfOwner emits_callM)
     (auto intro!: emits_basic split: option.splits bool.splits)

lemma emits_setIsmIfOwner:
  "P (SendTransaction chain (setIsm c t)) \<Longrightarrow> emits P (setIsmIfOwner env chain c t getIsm setIsm)"
  unfolding setIsmIfOwner_def
  by (intro emits_basic emits_runIfOwner emits_callM)

lemma emits_configureIsm:
  assumes "\<And>t. P (SendTransaction chain (setIsm c t))" and "P (IsmFactoryDeploy chain config)"
  shows "emits P (configureIsm env chain c config getIsm setIsm)"
  unfolding configureIsm_def
  using assms
  by (cases config; cases "ismFactory env")
     (auto intro!: emits_basic emits_setIsmIfOwner emits_callM)


lemma emits_configureClient:
  assumes "\<And>t. P (SendTransaction local (Tx c ''setHook'' [ArgAddress t]))"
    and "\<And>t. P (SendTransaction local (Tx c ''setInterchainSecurityModule'' [ArgAddress t]))"
    and "\<And>i. P (IsmFactoryDeploy local i)"
  shows "emits P (configureClient env local c config)"
  unfolding configureClient_def
  using assms
  by (auto intro!: emits_basic emits_configureHook emits_configureIsm)

lemma emits_recoverVerificationArtifacts:
  "emits P (recoverVerificationArtifacts env chain n a cargs ia)"
  unfolding recoverVerificationArtifacts_def Let_def
  by (auto intro!: emits_basic)

lemma emits_deployContractFromFactory:
  assumes "\<And>e. isSetup e \<Longrightarrow> P e"
  shows "emits P (deployContractFromFactory env chain factory n cargs ia rec)"
proof -
  have hit: "emits P (bindM (if recoverVerificationInputs env then
                   bindM (recoverVerificationArtifacts env chain n cached cargs ia)
                     (\<lambda>recoveredInputs. addVerificationArtifacts chain recoveredInputs)
                 else returnM ())
            (\<lambda>_. returnM cached))" for cached
    by (auto intro!: emits_basic emits_recoverVerificationArtifacts)
  have miss: "emits P (bindM (callM (HandleDeploy chain factory cargs)
                   (handleDeploy env chain factory cargs)) (\<lambda>contract.
          bindM (case ia of
                   None \<Rightarrow> returnM ()
                 | Some ia \<Rightarrow>
                     bindM (callM (HandleTx chain (Tx contract ''initialize'' ia))
                              (handleTx env chain (Tx contract ''initialize'' ia)))
                       (\<lambda>_. returnM ())) (\<lambda>_.
          let verificationInput = buildVerificationInput n contract cargs
          in bindM (addVerificationArtifacts chain [verificationInput]) (\<lambda>_.
             bindM (catchM (callM (VerifyContract chain n)
                              (verifyContract env chain verificationInput))
                      (\<lambda>_. returnM ())) (\<lambda>_.
             returnM contract)))))"
    unfolding Let_def
    by (auto intro!: emits_basic emits_callM assms simp: isSetup_def)
  show ?thesis
    unfolding emits_def
  proof
    fix s
    show "\<exists>evs. trace (snd (deployContractFromFactory env chain factory n cargs ia rec s)) =
        trace s @ evs \<and> (\<forall>e \<in> set evs. P e)"
    proof (cases "if rec then readCache chain n s else None")
      case None
      with miss show ?thesis
        unfolding emits_def deployContractFromFactory_def by simp
    next
      case (Some cached)
      with hit [of cached] show ?thesis
        unfolding emits_def deployContractFromFactory_def by simp
    qed
  qed
qed

lemma emits_deployContractWithName:
  "(\<And>e. isSetup e \<Longrightarrow> P e) \<Longrightarrow>
   emits P (deployContractWithName env chain k n cargs ia rec)"
  unfolding deployContractWithName_def
  by (intro emits_basic emits_deployContractFromFactory)

lemma emits_deployContract:
  "(\<And>e. isSetup e \<Longrightarrow> P e) \<Longrightarrow> emits P (deployContract env chain k cargs ia rec)"
  unfolding deployContract_def by (rule emits_deployContractWithName)

lemma emits_deployProxy:
  "(\<And>e. isSetup e \<Longrightarrow> P e) \<Longrightarrow> emits P (deployProxy env chain impl admin ia)"
  unfolding deployProxy_def
  by (intro emits_basic emits_deployContractFromFactory)

lemma emits_deployProxiedContract:
  "(\<And>e. isSetup e \<Longrightarrow> P e) \<Longrightarrow>
   emits P (deployProxiedContract env chain k n admin cargs ia)"
  unfolding deployProxiedContract_def
  by (intro emits_basic emits_deployContractWithName emits_deployProxy)

lemma emits_deployTimelock:
  "(\<And>e. isSetup e \<Longrightarrow> P e) \<Longrightarrow> emits P (deployTimelock env chain tc)"
  unfolding deployTimelock_def Let_def
  by (auto intro!: emits_callM simp: isSetup_def)

lemma emits_deployHook:
  "(\<And>e. isSetup e \<Longrightarrow> P e) \<Longrightarrow> emits P (deployHook env chain config ca)"
  unfolding deployHook_def
  by (auto intro!: emits_basic emits_callM emits_addDeployedContracts_state simp: isSetup_def)

lemma emits_deployIsm:
  "(\<And>e. isSetup e \<Longrightarrow> P e) \<Longrightarrow> emits P (deployIsm env chain config mailbox)"
  unfolding deployIsm_def
  by (cases "ismFactory env")
     (auto intro!: emits_basic emits_callM emits_addDeployedContracts_state simp: isSetup_def)

lemma emits_deployTestRecipient:
  "(\<And>e. isSetup e \<Longrightarrow> P e) \<Longrightarrow> emits P (deployTestRecipient env chain ism)"
  unfolding deployTestRecipient_def
  by (auto intro!: emits_basic emits_callM simp: isSetup_def)

lemma emits_deployValidatorAnnounce:
  "(\<And>e. isSetup e \<Longrightarrow> P e) \<Longrightarrow> emits P (deployValidatorAnnounce env chain m)"
  unfolding deployValidatorAnnounce_def by (rule emits_deployContract)

lemma emits_transferOwnershipLoop:
  assumes "\<And>c t. P (HandleTx chain (Tx c ''transferOwnership'' [ArgAddress t]))"
  shows "emits P (transferOwnershipLoop env chain config ownables receipts)"
proof (induction ownables arbitrary: receipts)
  case Nil
  show ?case by (simp add: emits_returnM)
next
  case (Cons p ownables)
  obtain n c where p: "p = (n, c)" by (cases p)
  show ?case
    unfolding p
    by (cases c)
       (auto intro!: emits_basic emits_runIfOwner emits_callM Cons.IH assms simp: Let_def)
qed

lemma emits_transferOwnershipOfContracts:
  "(\<And>c t. P (HandleTx chain (Tx c ''transferOwnership'' [ArgAddress t]))) \<Longrightarrow>
   emits P (transferOwnershipOfContracts env chain config ownables)"
  unfolding transferOwnershipOfContracts_def by (rule emits_transferOwnershipLoop)


lemma emits_reconcileMailbox:
  assumes "\<And>e. isSetup e \<Longrightarrow> P e" and "\<And>e. isSetHook e \<Longrightarrow> P e"
    and "\<And>e. isSetIsm e \<Longrightarrow> P e"
  shows "emits P (reconcileMailbox env chain mailbox ism dh rh)"
  unfolding reconcileMailbox_def
proof (intro emits_bindM emits_configureHook emits_configureIsm)
  show "P (SendTransaction chain (Tx mailbox ''setDefaultHook'' [ArgAddress dh]))"
    by (rule assms(2)) (simp add: isSetHook_def)
  show "P (SendTransaction chain (Tx mailbox ''setRequiredHook'' [ArgAddress rh]))"
    by (rule assms(2)) (simp add: isSetHook_def)
  show "P (SendTransaction chain (Tx mailbox ''setDefaultIsm'' [ArgAddress t]))" for t
    by (rule assms(3)) (simp add: isSetIsm_def)
  show "P (IsmFactoryDeploy chain (IsmAddress ism))"
    by (rule assms(1)) (simp add: isSetup_def)
qed

lemma emits_initializeMailbox:
  assumes "\<And>e. isSetup e \<Longrightarrow> P e" and "\<And>e. isSetHook e \<Longrightarrow> P e"
    and "\<And>e. isSetIsm e \<Longrightarrow> P e"
  shows "emits P (initializeMailbox env chain config mailbox ism dHook rHook)"
proof (cases dHook)
  case None
  then show ?thesis by (simp add: initializeMailbox_def emits_throwM)
next
  case dh: (Some dh)
  show ?thesis
  proof (cases rHook)
    case None
    with dh show ?thesis by (simp add: initializeMailbox_def emits_throwM)
  next
    case rh: (Some rh)
    have init: "P (HandleTx chain (Tx mailbox ''initialize''
        [ArgAddress (owner config), ArgAddress ism, ArgAddress dh, ArgAddress rh]))"
      by (rule assms(1)) (simp add: isSetup_def)
    have "emits P (catchM (bindM (callM (HandleTx chain (Tx mailbox ''initialize''
              [ArgAddress (owner config), ArgAddress ism, ArgAddress dh, ArgAddress rh]))
            (handleTx env chain (Tx mailbox ''initialize''
              [ArgAddress (owner config), ArgAddress ism, ArgAddress dh, ArgAddress rh])))
          (\<lambda>_. returnM ()))
        (\<lambda>e. if rethrown e then throwM e
              else reconcileMailbox env chain mailbox ism dh rh))"
      by (intro emits_catchM emits_bindM emits_callM emits_returnM emits_if emits_throwM
            emits_reconcileMailbox init assms)
    with dh rh show ?thesis by (simp add: initializeMailbox_def Let_def)
  qed
qed

lemma emits_deployMailbox:
  assumes "\<And>e. isSetup e \<Longrightarrow> P e" and "\<And>e. isSetHook e \<Longrightarrow> P e"
    and "\<And>e. isSetIsm e \<Longrightarrow> P e"
  shows "emits P (deployMailbox env chain config admin)"
  unfolding deployMailbox_def Let_def
  by (intro emits_bindM emits_readM emits_returnM emits_if emits_cacheInterchainSecurityModule
        emits_deployProxiedContract emits_deployIsm emits_deployHook
        emits_initializeMailbox assms)

section \<open>Two phases\<close>

lemma emitsThen_fst: "emits P m \<Longrightarrow> emitsThen P Q m"
  unfolding emits_def emitsThen_def
proof
  fix s
  assume "\<forall>s. \<exists>evs. trace (snd (m s)) = trace s @ evs \<and> (\<forall>e \<in> set evs. P e)"
  then obtain evs where "trace (snd (m s)) = trace s @ evs" "\<forall>e \<in> set evs. P e"
    by blast
  then have "trace (snd (m s)) = trace s @ evs @ [] \<and> (\<forall>e \<in> set evs. P e) \<and>
      (\<forall>e \<in> set []. Q e)" by simp
  then show "\<exists>xs ys. trace (snd (m s)) = trace s @ xs @ ys \<and> (\<forall>e \<in> set xs. P e) \<and>
      (\<forall>e \<in> set ys. Q e)" by blast
qed

lemma emitsThen_snd: "emits Q m \<Longrightarrow> emitsThen P Q m"
  unfolding emits_def emitsThen_def
proof
  fix s
  assume "\<forall>s. \<exists>evs. trace (snd (m s)) = trace s @ evs \<and> (\<forall>e \<in> set evs. Q e)"
  then obtain evs where "trace (snd (m s)) = trace s @ evs" "\<forall>e \<in> set evs. Q e"
    by blast
  then have "trace (snd (m s)) = trace s @ [] @ evs \<and> (\<forall>e \<in> set []. P e) \<and>
      (\<forall>e \<in> set evs. Q e)" by simp
  then show "\<exists>xs ys. trace (snd (m s)) = trace s @ xs @ ys \<and> (\<forall>e \<in> set xs. P e) \<and>
      (\<forall>e \<in> set ys. Q e)" by blast
qed

lemma emitsThen_bind_fst:
  assumes "emits P m" and "\<And>x. emitsThen P Q (f x)"
  shows "emitsThen P Q (bindM m f)"
  unfolding emitsThen_def
proof
  fix s
  from assms(1) obtain evs where m: "trace (snd (m s)) = trace s @ evs" "\<forall>e \<in> set evs. P e"
    unfolding emits_def by blast
  show "\<exists>xs ys. trace (snd (bindM m f s)) = trace s @ xs @ ys \<and> (\<forall>e \<in> set xs. P e) \<and>
      (\<forall>e \<in> set ys. Q e)"
  proof (cases "m s")
    case (Pair r s')
    show ?thesis
    proof (cases r)
      case (Inl e)
      with Pair m have "trace (snd (bindM m f s)) = trace s @ evs @ [] \<and>
          (\<forall>e \<in> set evs. P e) \<and> (\<forall>e \<in> set []. Q e)"
        by (simp add: bindM_def)
      then show ?thesis by (intro exI [where x = evs] exI [where x = "[]"])
    next
      case (Inr x)
      from assms(2) [of x] obtain xs ys where
        f: "trace (snd (f x s')) = trace s' @ xs @ ys" "\<forall>e \<in> set xs. P e" "\<forall>e \<in> set ys. Q e"
        unfolding emitsThen_def by blast
      with Pair Inr m have "trace (snd (bindM m f s)) = trace s @ (evs @ xs) @ ys"
        by (simp add: bindM_def)
      moreover have "\<forall>e \<in> set (evs @ xs). P e" using m f by auto
      ultimately show ?thesis using f(3) by blast
    qed
  qed
qed

lemma emitsThen_bind_snd:
  assumes "emitsThen P Q m" and "\<And>x. emits Q (f x)"
  shows "emitsThen P Q (bindM m f)"
  unfolding emitsThen_def
proof
  fix s
  from assms(1) obtain xs ys where
    m: "trace (snd (m s)) = trace s @ xs @ ys" "\<forall>e \<in> set xs. P e" "\<forall>e \<in> set ys. Q e"
    unfolding emitsThen_def by blast
  show "\<exists>xs ys. trace (snd (bindM m f s)) = trace s @ xs @ ys \<and> (\<forall>e \<in> set xs. P e) \<and>
      (\<forall>e \<in> set ys. Q e)"
  proof (cases "m s")
    case (Pair r s')
    show ?thesis
    proof (cases r)
      case (Inl e)
      with Pair m have "trace (snd (bindM m f s)) = trace s @ xs @ ys"
        by (simp add: bindM_def)
      with m show ?thesis by blast
    next
      case (Inr x)
      from assms(2) [of x] obtain evs where
        f: "trace (snd (f x s')) = trace s' @ evs" "\<forall>e \<in> set evs. Q e"
        unfolding emits_def by blast
      with Pair Inr m have "trace (snd (bindM m f s)) = trace s @ xs @ (ys @ evs)"
        by (simp add: bindM_def)
      moreover have "\<forall>e \<in> set (ys @ evs). Q e" using m f by auto
      ultimately show ?thesis using m(2) by blast
    qed
  qed
qed

lemma emitsThen_catch_fst:
  assumes "emits P m" and "\<And>e. emitsThen P Q (h e)"
  shows "emitsThen P Q (catchM m h)"
  unfolding emitsThen_def
proof
  fix s
  from assms(1) obtain evs where m: "trace (snd (m s)) = trace s @ evs" "\<forall>e \<in> set evs. P e"
    unfolding emits_def by blast
  show "\<exists>xs ys. trace (snd (catchM m h s)) = trace s @ xs @ ys \<and> (\<forall>e \<in> set xs. P e) \<and>
      (\<forall>e \<in> set ys. Q e)"
  proof (cases "m s")
    case (Pair r s')
    show ?thesis
    proof (cases r)
      case (Inr x)
      with Pair m have "trace (snd (catchM m h s)) = trace s @ evs @ [] \<and>
          (\<forall>e \<in> set evs. P e) \<and> (\<forall>e \<in> set []. Q e)"
        by (simp add: catchM_def)
      then show ?thesis by (intro exI [where x = evs] exI [where x = "[]"])
    next
      case (Inl e)
      from assms(2) [of e] obtain xs ys where
        f: "trace (snd (h e s')) = trace s' @ xs @ ys" "\<forall>e \<in> set xs. P e" "\<forall>e \<in> set ys. Q e"
        unfolding emitsThen_def by blast
      with Pair Inl m have "trace (snd (catchM m h s)) = trace s @ (evs @ xs) @ ys"
        by (simp add: catchM_def)
      moreover have "\<forall>e \<in> set (evs @ xs). P e" using m f by auto
      ultimately show ?thesis using f(3) by blast
    qed
  qed
qed

lemma allBefore_none: "\<forall>e \<in> set ys. \<not> P e \<Longrightarrow> allBefore P Q ys"
  by (induction ys) simp_all

lemma allBefore_append:
  "\<forall>e \<in> set xs. \<not> Q e \<Longrightarrow> \<forall>e \<in> set ys. \<not> P e \<Longrightarrow> allBefore P Q (xs @ ys)"
  by (induction xs) (simp_all add: allBefore_none)

lemma emitsThen_allBefore:
  assumes "emitsThen (\<lambda>e. \<not> Q e) (\<lambda>e. \<not> P e) m"
  shows "allBefore P Q (emitted m s)"
proof -
  from assms obtain xs ys where
    "trace (snd (m s)) = trace s @ xs @ ys" "\<forall>e \<in> set xs. \<not> Q e" "\<forall>e \<in> set ys. \<not> P e"
    unfolding emitsThen_def by blast
  then show ?thesis by (simp add: emitted_def allBefore_append)
qed


lemma emitsThen_if:
  "emitsThen P Q a \<Longrightarrow> emitsThen P Q b \<Longrightarrow> emitsThen P Q (if c then a else b)"
  by simp

lemma emitsThen_reconcileMailbox:
  assumes "\<And>e. isSetHook e \<Longrightarrow> P e" and "\<And>e. isSetup e \<Longrightarrow> Q e"
    and "\<And>e. isSetIsm e \<Longrightarrow> Q e"
  shows "emitsThen P Q (reconcileMailbox env chain mailbox ism dh rh)"
  unfolding reconcileMailbox_def
proof (intro emitsThen_bind_fst emitsThen_snd emits_configureHook emits_configureIsm)
  show "P (SendTransaction chain (Tx mailbox ''setDefaultHook'' [ArgAddress dh]))"
    by (rule assms(1)) (simp add: isSetHook_def)
  show "P (SendTransaction chain (Tx mailbox ''setRequiredHook'' [ArgAddress rh]))"
    by (rule assms(1)) (simp add: isSetHook_def)
  show "Q (SendTransaction chain (Tx mailbox ''setDefaultIsm'' [ArgAddress t]))" for t
    by (rule assms(3)) (simp add: isSetIsm_def)
  show "Q (IsmFactoryDeploy chain (IsmAddress ism))"
    by (rule assms(2)) (simp add: isSetup_def)
qed

lemma emitsThen_initializeMailbox:
  assumes "\<And>e. isSetup e \<Longrightarrow> P e" and "\<And>e. isSetHook e \<Longrightarrow> P e"
    and "\<And>e. isSetup e \<Longrightarrow> Q e" and "\<And>e. isSetIsm e \<Longrightarrow> Q e"
  shows "emitsThen P Q (initializeMailbox env chain config mailbox ism dHook rHook)"
proof (cases dHook)
  case None
  then show ?thesis by (simp add: initializeMailbox_def emitsThen_fst emits_throwM)
next
  case dh: (Some dh)
  show ?thesis
  proof (cases rHook)
    case None
    with dh show ?thesis by (simp add: initializeMailbox_def emitsThen_fst emits_throwM)
  next
    case rh: (Some rh)
    have init: "P (HandleTx chain (Tx mailbox ''initialize''
        [ArgAddress (owner config), ArgAddress ism, ArgAddress dh, ArgAddress rh]))"
      by (rule assms(1)) (simp add: isSetup_def)
    have throw: "emitsThen P Q (throwM e)" for e :: error
      by (intro emitsThen_fst emits_throwM)
    have "emitsThen P Q (catchM (bindM (callM (HandleTx chain (Tx mailbox ''initialize''
              [ArgAddress (owner config), ArgAddress ism, ArgAddress dh, ArgAddress rh]))
            (handleTx env chain (Tx mailbox ''initialize''
              [ArgAddress (owner config), ArgAddress ism, ArgAddress dh, ArgAddress rh])))
          (\<lambda>_. returnM ()))
        (\<lambda>e. if rethrown e then throwM e
              else reconcileMailbox env chain mailbox ism dh rh))"
      by (intro emitsThen_catch_fst emits_bindM emits_callM emits_returnM emitsThen_if throw
            emitsThen_reconcileMailbox init assms)
    with dh rh show ?thesis by (simp add: initializeMailbox_def Let_def)
  qed
qed

lemma emitsThen_deployMailbox:
  assumes "\<And>e. isSetup e \<Longrightarrow> P e" and "\<And>e. isSetHook e \<Longrightarrow> P e"
    and "\<And>e. isSetup e \<Longrightarrow> Q e" and "\<And>e. isSetIsm e \<Longrightarrow> Q e"
  shows "emitsThen P Q (deployMailbox env chain config admin)"
  unfolding deployMailbox_def Let_def
  by (intro emitsThen_bind_fst emitsThen_bind_snd emits_bindM emits_readM emits_returnM emits_if
        emits_cacheInterchainSecurityModule emits_deployProxiedContract emits_deployIsm
        emits_deployHook emitsThen_initializeMailbox assms)

lemma emits_testRecipient_step:
  assumes "\<And>e. isSetup e \<Longrightarrow> P e"
  shows "emits P (\<lambda>s. case cachedAddresses s chain of
             None \<Rightarrow> (Inl (typeError ''interchainSecurityModule''), s)
           | Some m \<Rightarrow> deployTestRecipient env chain
                         (map_option IsmAddress (m ''interchainSecurityModule'')) s)"
  unfolding emits_def
proof
  fix s
  show "\<exists>evs. trace (snd (case cachedAddresses s chain of
             None \<Rightarrow> (Inl (typeError ''interchainSecurityModule''), s)
           | Some m \<Rightarrow> deployTestRecipient env chain
                         (map_option IsmAddress (m ''interchainSecurityModule'')) s)) =
        trace s @ evs \<and> (\<forall>e \<in> set evs. P e)"
  proof (cases "cachedAddresses s chain")
    case None
    then show ?thesis by simp
  next
    case (Some m)
    with emits_deployTestRecipient [OF assms, where env = env and chain = chain
        and ism = "map_option IsmAddress (m ''interchainSecurityModule'')"]
    show ?thesis by (simp add: emits_def)
  qed
qed

lemma emits_upgrade_step:
  assumes "\<And>e. isSetup e \<Longrightarrow> P e"
  shows "emits P (case upgrade config of
             None \<Rightarrow> returnM config
           | Some up \<Rightarrow>
               bindM (deployTimelock env chain up) (\<lambda>timelockController.
               returnM (config\<lparr>ownerOverrides :=
                 Some (AList.update ''proxyAdmin'' timelockController
                         (case ownerOverrides config of None \<Rightarrow> [] | Some ov \<Rightarrow> ov))\<rparr>)))"
  by (intro emits_case_option emits_bindM emits_returnM emits_deployTimelock assms)

lemma emits_after_mailbox:
  assumes "\<And>e. isSetup e \<Longrightarrow> Q e" and "\<And>e. isTransfer e \<Longrightarrow> Q e"
  shows "emits Q
     (bindM (deployValidatorAnnounce env chain mailbox) (\<lambda>validatorAnnounce.
      bindM (case upgrade config of
               None \<Rightarrow> returnM config
             | Some up \<Rightarrow>
                 bindM (deployTimelock env chain up) (\<lambda>timelockController.
                 returnM (config\<lparr>ownerOverrides :=
                   Some (AList.update ''proxyAdmin'' timelockController
                           (case ownerOverrides config of None \<Rightarrow> [] | Some ov \<Rightarrow> ov))\<rparr>)))
        (\<lambda>config'.
      bindM (\<lambda>s. case cachedAddresses s chain of
                    None \<Rightarrow> (Inl (typeError ''interchainSecurityModule''), s)
                  | Some m \<Rightarrow>
                      deployTestRecipient env chain
                        (map_option IsmAddress (m ''interchainSecurityModule'')) s)
        (\<lambda>testRecipient.
      bindM (transferOwnershipOfContracts env chain config'
               [(''mailbox'', Some mailbox), (''proxyAdmin'', Some admin),
                (''validatorAnnounce'', Some validatorAnnounce),
                (''testRecipient'', testRecipient)]) (\<lambda>_.
      returnM (Some ([(''mailbox'', mailbox), (''proxyAdmin'', admin),
                      (''validatorAnnounce'', validatorAnnounce)]
                     @ (case testRecipient of
                          None \<Rightarrow> []
                        | Some t \<Rightarrow> [(''testRecipient'', t)]))))))))"
proof -
  have tr: "Q (HandleTx chain (Tx c ''transferOwnership'' [ArgAddress t]))" for c t
    by (rule assms(2)) (simp add: isTransfer_def)
  show ?thesis
    by (intro emits_bindM emits_returnM emits_deployValidatorAnnounce emits_upgrade_step
          emits_testRecipient_step emits_transferOwnershipOfContracts assms(1) tr)
qed

lemma emitsThen_deployContracts_hooks_first:
  assumes "\<And>e. isSetup e \<Longrightarrow> P e" and "\<And>e. isSetHook e \<Longrightarrow> P e"
    and "\<And>e. isSetup e \<Longrightarrow> Q e" and "\<And>e. isSetIsm e \<Longrightarrow> Q e"
    and "\<And>e. isTransfer e \<Longrightarrow> Q e"
  shows "emitsThen P Q (deployContracts env chain configOpt)"
proof (cases configOpt)
  case None
  then show ?thesis by (simp add: deployContracts_def emitsThen_fst emits_throwM)
next
  case (Some config)
  show ?thesis
  proof (cases "remove config")
    case True
    with Some show ?thesis by (simp add: deployContracts_def emitsThen_fst emits_returnM)
  next
    case False
    show ?thesis
      unfolding deployContracts_def Some option.case
      using False
      apply (simp only: if_False)
      apply (rule emitsThen_bind_fst)
       apply (rule emits_deployContract)
       apply (erule assms(1))
      apply (rule emitsThen_bind_snd)
       apply (rule emitsThen_deployMailbox)
          apply (erule assms(1))
         apply (erule assms(2))
        apply (erule assms(3))
       apply (erule assms(4))
      apply (rule emits_after_mailbox)
       apply (erule assms(3))
      apply (erule assms(5))
      done
  qed
qed


lemma emitsThen_deployContracts_transfers_last:
  assumes "\<And>e. isSetup e \<Longrightarrow> P e" and "\<And>e. isSetHook e \<Longrightarrow> P e"
    and "\<And>e. isSetIsm e \<Longrightarrow> P e" and "\<And>e. isTransfer e \<Longrightarrow> Q e"
  shows "emitsThen P Q (deployContracts env chain configOpt)"
proof (cases configOpt)
  case None
  then show ?thesis by (simp add: deployContracts_def emitsThen_fst emits_throwM)
next
  case (Some config)
  have tr: "Q (HandleTx chain (Tx c ''transferOwnership'' [ArgAddress t]))" for c t
    by (rule assms(4)) (simp add: isTransfer_def)
  show ?thesis
  proof (cases "remove config")
    case True
    with Some show ?thesis by (simp add: deployContracts_def emitsThen_fst emits_returnM)
  next
    case False
    show ?thesis
      unfolding deployContracts_def Some option.case
      using False
      apply (simp only: if_False)
      apply (rule emitsThen_bind_fst, rule emits_deployContract, erule assms(1))
      apply (rule emitsThen_bind_fst, rule emits_deployMailbox, erule assms(1),
          erule assms(2), erule assms(3))
      apply (rule emitsThen_bind_fst, rule emits_deployValidatorAnnounce, erule assms(1))
      apply (rule emitsThen_bind_fst, rule emits_upgrade_step, erule assms(1))
      apply (rule emitsThen_bind_fst, rule emits_testRecipient_step, erule assms(1))
      apply (rule emitsThen_snd)
      apply (intro emits_bindM emits_returnM emits_transferOwnershipOfContracts tr)
      done
  qed
qed

lemma emitsThen_configureClient:
  assumes "\<And>e. isSetHook e \<Longrightarrow> P e" and "\<And>e. isSetup e \<Longrightarrow> Q e"
    and "\<And>e. isSetIsm e \<Longrightarrow> Q e"
  shows "emitsThen P Q (configureClient env local c config)"
proof -
  have h: "P (SendTransaction local (Tx c ''setHook'' [ArgAddress t]))" for t
    by (rule assms(1)) (simp add: isSetHook_def)
  have i: "Q (SendTransaction local (Tx c ''setInterchainSecurityModule'' [ArgAddress t]))" for t
    by (rule assms(3)) (simp add: isSetIsm_def)
  have f: "Q (IsmFactoryDeploy local x)" for x
    by (rule assms(2)) (simp add: isSetup_def)
  show ?thesis
    unfolding configureClient_def
    by (intro emitsThen_bind_fst emitsThen_snd emits_case_option emits_if emits_returnM
          emits_configureHook emits_configureIsm h i f)
qed

lemma kinds_disjoint:
  "isSetup e \<Longrightarrow> \<not> isSetHook e" "isSetup e \<Longrightarrow> \<not> isSetIsm e" "isSetup e \<Longrightarrow> \<not> isTransfer e"
  "isSetHook e \<Longrightarrow> \<not> isSetIsm e" "isSetHook e \<Longrightarrow> \<not> isTransfer e"
  "isSetIsm e \<Longrightarrow> \<not> isSetHook e" "isSetIsm e \<Longrightarrow> \<not> isTransfer e"
  "isTransfer e \<Longrightarrow> \<not> isSetHook e" "isTransfer e \<Longrightarrow> \<not> isSetIsm e"
  by (cases e; auto simp: isSetup_def isSetHook_def isSetIsm_def isTransfer_def)+

text \<open>
  Claim C7, as amended. In every run of \<^verbatim>\<open>configureClient\<close> and in every run of
  \<^verbatim>\<open>deployContracts\<close>, no set-module transaction comes before a set-hook transaction;
  and in every run of \<^verbatim>\<open>deployContracts\<close> no ownership transfer comes before a
  set-hook or a set-module transaction.
\<close>

theorem hooks_then_module_then_owner:
  "allBefore isSetHook isSetIsm (emitted (configureClient env local client clientConfig) s) \<and>
   allBefore isSetHook isSetIsm (emitted (deployContracts env chain configOpt) s') \<and>
   allBefore isSetHook isTransfer (emitted (deployContracts env chain configOpt) s') \<and>
   allBefore isSetIsm isTransfer (emitted (deployContracts env chain configOpt) s')"
proof (intro conjI)
  show "allBefore isSetHook isSetIsm (emitted (configureClient env local client clientConfig) s)"
    by (intro emitsThen_allBefore emitsThen_configureClient) (erule kinds_disjoint)+
  show "allBefore isSetHook isSetIsm (emitted (deployContracts env chain configOpt) s')"
    by (intro emitsThen_allBefore emitsThen_deployContracts_hooks_first)
       (erule kinds_disjoint)+
  show "allBefore isSetHook isTransfer (emitted (deployContracts env chain configOpt) s')"
    by (intro emitsThen_allBefore emitsThen_deployContracts_transfers_last)
       (erule kinds_disjoint)+
  show "allBefore isSetIsm isTransfer (emitted (deployContracts env chain configOpt) s')"
    by (intro emitsThen_allBefore emitsThen_deployContracts_transfers_last)
       (erule kinds_disjoint)+
qed

lemma stale_run:
  "emitted (deployContracts (simEnv ''deployer'') ''eth''
       (Some ((simConfig None)\<lparr>owner := ''newOwner''\<rparr>))) (seededState staleWorld) =
   [IsmFactoryDeploy ''eth'' (MultisigIsm [''v1'', ''v2''] 2),
    HookDeploy ''eth'' \<lparr>hookType = ''merkle'', hookParams = []\<rparr>,
    HookDeploy ''eth'' \<lparr>hookType = ''protocolFee'', hookParams = []\<rparr>,
    HandleTx ''eth'' (Tx ''mb'' ''initialize''
      [ArgAddress ''newOwner'', ArgAddress ''ism'', ArgAddress ''hook-merkle'',
       ArgAddress ''hook-protocolFee'']),
    SendTransaction ''eth'' (Tx ''mb'' ''setDefaultHook'' [ArgAddress ''hook-merkle'']),
    SendTransaction ''eth'' (Tx ''mb'' ''setRequiredHook'' [ArgAddress ''hook-protocolFee'']),
    SendTransaction ''eth'' (Tx ''mb'' ''setDefaultIsm'' [ArgAddress ''ism'']),
    TestRecipientDeploy ''eth'',
    HandleTx ''eth'' (Tx ''mb'' ''transferOwnership'' [ArgAddress ''newOwner'']),
    HandleTx ''eth'' (Tx ''pa'' ''transferOwnership'' [ArgAddress ''newOwner'']),
    HandleTx ''eth'' (Tx ''va'' ''transferOwnership'' [ArgAddress ''newOwner'']),
    HandleTx ''eth'' (Tx ''tr'' ''transferOwnership'' [ArgAddress ''newOwner''])]"
  by (simp add: emitted_def monad_defs engine_defs sim_defs staleWorld_def seededState_def
        mailboxWorld_def Let_def)

text \<open>
  Claim C7, as stated, fails: \<^verbatim>\<open>configureClient\<close> sends the set-hook transaction
  before the set-module transaction, and so does \<^verbatim>\<open>deployContracts\<close> on a chain
  whose initialized mailbox has settings that are out of date.
\<close>

theorem hook_is_set_before_module:
  "emitted (configureClient (simEnv ''deployer'') ''eth'' ''m''
      \<lparr>hook = Some ''newHook'', interchainSecurityModule = Some (IsmAddress ''newIsm'')\<rparr>)
     (state0 ownedWorld) =
   [SendTransaction ''eth'' (Tx ''m'' ''setHook'' [ArgAddress ''newHook'']),
    SendTransaction ''eth'' (Tx ''m'' ''setInterchainSecurityModule'' [ArgAddress ''newIsm''])] \<and>
   \<not> allBefore isSetIsm isSetHook
      (emitted (configureClient (simEnv ''deployer'') ''eth'' ''m''
         \<lparr>hook = Some ''newHook'', interchainSecurityModule = Some (IsmAddress ''newIsm'')\<rparr>)
        (state0 ownedWorld)) \<and>
   \<not> allBefore isSetIsm isSetHook (emitted (deployContracts (simEnv ''deployer'') ''eth''
       (Some ((simConfig None)\<lparr>owner := ''newOwner''\<rparr>))) (seededState staleWorld))"
proof -
  have "emitted (configureClient (simEnv ''deployer'') ''eth'' ''m''
      \<lparr>hook = Some ''newHook'', interchainSecurityModule = Some (IsmAddress ''newIsm'')\<rparr>)
     (state0 ownedWorld) =
   [SendTransaction ''eth'' (Tx ''m'' ''setHook'' [ArgAddress ''newHook'']),
    SendTransaction ''eth'' (Tx ''m'' ''setInterchainSecurityModule'' [ArgAddress ''newIsm''])]"
    by (simp add: emitted_def monad_defs engine_defs sim_defs)
  then show ?thesis
    unfolding stale_run by (simp add: isSetHook_def isSetIsm_def)
qed

theorem hooks_then_module_then_owner_witness:
  "(\<exists>e \<in> set (emitted (deployContracts (simEnv ''deployer'') ''eth''
       (Some ((simConfig None)\<lparr>owner := ''newOwner''\<rparr>))) (seededState staleWorld)). isSetHook e) \<and>
   (\<exists>e \<in> set (emitted (deployContracts (simEnv ''deployer'') ''eth''
       (Some ((simConfig None)\<lparr>owner := ''newOwner''\<rparr>))) (seededState staleWorld)). isSetIsm e) \<and>
   (\<exists>e \<in> set (emitted (deployContracts (simEnv ''deployer'') ''eth''
       (Some ((simConfig None)\<lparr>owner := ''newOwner''\<rparr>))) (seededState staleWorld)). isTransfer e) \<and>
   allBefore isSetHook isSetIsm (emitted (deployContracts (simEnv ''deployer'') ''eth''
       (Some ((simConfig None)\<lparr>owner := ''newOwner''\<rparr>))) (seededState staleWorld)) \<and>
   allBefore isSetHook isTransfer (emitted (deployContracts (simEnv ''deployer'') ''eth''
       (Some ((simConfig None)\<lparr>owner := ''newOwner''\<rparr>))) (seededState staleWorld)) \<and>
   allBefore isSetIsm isTransfer (emitted (deployContracts (simEnv ''deployer'') ''eth''
       (Some ((simConfig None)\<lparr>owner := ''newOwner''\<rparr>))) (seededState staleWorld))"
proof -
  have kinds:
    "\<exists>e \<in> set (emitted (deployContracts (simEnv ''deployer'') ''eth''
       (Some ((simConfig None)\<lparr>owner := ''newOwner''\<rparr>))) (seededState staleWorld)). isSetHook e"
    "\<exists>e \<in> set (emitted (deployContracts (simEnv ''deployer'') ''eth''
       (Some ((simConfig None)\<lparr>owner := ''newOwner''\<rparr>))) (seededState staleWorld)). isSetIsm e"
    "\<exists>e \<in> set (emitted (deployContracts (simEnv ''deployer'') ''eth''
       (Some ((simConfig None)\<lparr>owner := ''newOwner''\<rparr>))) (seededState staleWorld)). isTransfer e"
    unfolding stale_run by (simp_all add: isSetHook_def isSetIsm_def isTransfer_def)
  with hooks_then_module_then_owner [where env = "simEnv ''deployer''" and chain = "''eth''"
      and configOpt = "Some ((simConfig None)\<lparr>owner := ''newOwner''\<rparr>)"
      and s' = "seededState staleWorld"]
  show ?thesis by blast
qed

section \<open>A second deployment\<close>













end
